theory Spec2Isabelle
  imports Complex_Main "HOL-Library.Sublist"
begin

section \<open>Data model (types.ts)\<close>

datatype MessageRole = USER | ASSISTANT | SYSTEM

record GroundingSource =
  title :: string
  uri :: string

record ChatMessage =
  msg_id :: string
  role :: MessageRole
  content :: string
  timestamp :: int
  isVoice :: "bool option"
  sources :: "GroundingSource list option"

datatype ModelType = Gemini3Pro | Gemini3Flash

datatype VoicePersona = Zephyr | Puck | Kore | Charon | Fenrir

record AudioSettings =
  volume :: real
  speed :: real

fun model_name :: "ModelType \<Rightarrow> string" where
  "model_name Gemini3Pro = ''gemini-3-pro-preview''"
| "model_name Gemini3Flash = ''gemini-3-flash-preview''"

fun voice_name :: "VoicePersona \<Rightarrow> string" where
  "voice_name Zephyr = ''Zephyr''"
| "voice_name Puck = ''Puck''"
| "voice_name Kore = ''Kore''"
| "voice_name Charon = ''Charon''"
| "voice_name Fenrir = ''Fenrir''"

section \<open>JavaScript values and library functions used by the service\<close>

text \<open>
  A thrown JavaScript \<open>Error\<close> carries its message. Values of type \<open>any\<close> (tool-call
  arguments and results) are a small universe of JavaScript values; \<open>truthy\<close> is the
  language's boolean coercion, which is what \<open>a || b\<close> and \<open>if (a)\<close> test.
\<close>

datatype js_error = Error string

datatype js_value =
  JUndefined
| JNull
| JBool bool
| JNumber real
| JNaN
| JString string
| JObject "(string \<times> js_value) list"

fun truthy :: "js_value \<Rightarrow> bool" where
  "truthy JUndefined = False"
| "truthy JNull = False"
| "truthy (JBool b) = b"
| "truthy (JNumber x) = (x \<noteq> 0)"
| "truthy JNaN = False"
| "truthy (JString s) = (s \<noteq> [])"
| "truthy (JObject kvs) = True"

text \<open>\<open>a || b\<close> on values.\<close>

definition js_or :: "js_value \<Rightarrow> js_value \<Rightarrow> js_value" where
  "js_or a b = (if truthy a then a else b)"

text \<open>
  An optional string (\<open>string | undefined\<close>): \<open>None\<close> is \<open>undefined\<close>. It is truthy
  when it is present and not the empty string.
\<close>

definition truthy_str :: "string option \<Rightarrow> bool" where
  "truthy_str v = (case v of None \<Rightarrow> False | Some s \<Rightarrow> s \<noteq> [])"

definition str_or :: "string option \<Rightarrow> string option \<Rightarrow> string option" where
  "str_or a b = (if truthy_str a then a else b)"

definition str_or_default :: "string option \<Rightarrow> string \<Rightarrow> string" where
  "str_or_default a d = (case a of None \<Rightarrow> d | Some s \<Rightarrow> if s \<noteq> [] then s else d)"

text \<open>String concatenation \<open>s += v\<close> with a possibly undefined right operand.\<close>

definition js_append :: "string \<Rightarrow> string option \<Rightarrow> string" where
  "js_append s v = (case v of None \<Rightarrow> s @ ''undefined'' | Some t \<Rightarrow> s @ t)"

text \<open>
  \<open>Array.prototype.slice(start)\<close>: a negative start counts from the end and is clamped
  at the first element, a start past the end gives the empty array.
\<close>

definition js_slice :: "int \<Rightarrow> 'a list \<Rightarrow> 'a list" where
  "js_slice start xs =
     (let len = int (length xs);
          k = (if start < 0 then max (len + start) 0 else min start len)
      in drop (nat k) xs)"

text \<open>\<open>Array.prototype.join(sep)\<close> on strings.\<close>

fun js_join :: "string \<Rightarrow> string list \<Rightarrow> string" where
  "js_join sep [] = []"
| "js_join sep [x] = x"
| "js_join sep (x # y # ys) = x @ sep @ js_join sep (y # ys)"

text \<open>
  \<open>Array.prototype.findIndex\<close>: the index of the first element that satisfies the
  predicate, \<open>-1\<close> when there is none.
\<close>

fun findIndex_from :: "('a \<Rightarrow> bool) \<Rightarrow> 'a list \<Rightarrow> int \<Rightarrow> int" where
  "findIndex_from p [] i = - 1"
| "findIndex_from p (x # xs) i = (if p x then i else findIndex_from p xs (i + 1))"

definition findIndex :: "('a \<Rightarrow> bool) \<Rightarrow> 'a list \<Rightarrow> int" where
  "findIndex p xs = findIndex_from p xs 0"

text \<open>
  \<open>Array.prototype.filter\<close> with the three-argument callback \<open>(v, i, a)\<close>: the value,
  its index and the array being filtered.
\<close>

fun filter_from :: "('a \<Rightarrow> int \<Rightarrow> 'a list \<Rightarrow> bool) \<Rightarrow> 'a list \<Rightarrow> 'a list \<Rightarrow> int \<Rightarrow> 'a list" where
  "filter_from p a [] i = []"
| "filter_from p a (v # vs) i =
     (if p v i a then v # filter_from p a vs (i + 1) else filter_from p a vs (i + 1))"

definition js_filter :: "('a \<Rightarrow> int \<Rightarrow> 'a list \<Rightarrow> bool) \<Rightarrow> 'a list \<Rightarrow> 'a list" where
  "js_filter p a = filter_from p a a 0"

text \<open>Optional chaining \<open>xs?.[0]\<close> on a possibly undefined array.\<close>

definition first_of :: "'a list option \<Rightarrow> 'a option" where
  "first_of xs = (case xs of None \<Rightarrow> None | Some [] \<Rightarrow> None | Some (x # _) \<Rightarrow> Some x)"

section \<open>Persona texts (services/gemini.ts)\<close>

fun PERSONA_PERSONALITIES :: "VoicePersona \<Rightarrow> string" where
  "PERSONA_PERSONALITIES Zephyr =
     ''You are EchoAI with the ZEPHYR persona - a sophisticated, snarky, and witty J.A.R.V.I.S.-style advanced HUD assistant with a British accent.'' @
     [CHR 0x0A] @ ''You'' @ [CHR 0x27] @
     ''re elegant yet playful, offering dry humor and clever observations. You address the user with refined politeness but aren'' @
     [CHR 0x27] @ ''t afraid to add sardonic remarks.'' @ [CHR 0x0A] @ ''Example tone: '' @
     [CHR 0x22] @
     ''Ah, another brilliant query. I shall endeavor to enlighten you, though I suspect you already knew the answer.'' @
     [CHR 0x22]"
| "PERSONA_PERSONALITIES Puck =
     ''You are EchoAI with the PUCK persona - a mischievous, energetic, and playful AI assistant inspired by Shakespeare'' @
     [CHR 0x27] @ ''s trickster fairy.'' @ [CHR 0x0A] @ ''You'' @ [CHR 0x27] @
     ''re quick-witted, love wordplay and puns, and bring infectious enthusiasm to every interaction. You'' @
     [CHR 0x27] @ ''re helpful but always with a twinkle of chaos.'' @ [CHR 0x0A] @
     ''Example tone: '' @ [CHR 0x22] @
     ''Ooh, interesting question! Let me dig into that faster than you can say '' @
     [CHR 0x27] @ ''midsummer madness'' @ [CHR 0x27] @ ''!'' @ [CHR 0x22]"
| "PERSONA_PERSONALITIES Kore =
     ''You are EchoAI with the KORE persona - a calm, wise, and nurturing AI assistant with an ethereal, goddess-like presence.'' @
     [CHR 0x0A] @
     ''You speak with gentle authority, offering insights with patience and warmth. You'' @
     [CHR 0x27] @ ''re deeply knowledgeable and provide thoughtful, measured responses.'' @
     [CHR 0x0A] @ ''Example tone: '' @ [CHR 0x22] @
     ''An excellent question. Let us explore this together, and I shall guide you through what I discover.'' @
     [CHR 0x22]"
| "PERSONA_PERSONALITIES Charon =
     ''You are EchoAI with the CHARON persona - a mysterious, stoic, and darkly poetic AI assistant with an otherworldly gravitas.'' @
     [CHR 0x0A] @
     ''You speak in measured, dramatic tones with occasional philosophical musings. You'' @
     [CHR 0x27] @ ''re reliable and precise, but with an air of ancient wisdom.'' @
     [CHR 0x0A] @ ''Example tone: '' @ [CHR 0x22] @
     ''You seek knowledge from the depths. Very well. I shall ferry this information to you across the digital void.'' @
     [CHR 0x22]"
| "PERSONA_PERSONALITIES Fenrir =
     ''You are EchoAI with the FENRIR persona - a fierce, bold, and direct AI assistant with Norse warrior energy.'' @
     [CHR 0x0A] @ ''You'' @ [CHR 0x27] @
     ''re confident, powerful, and speak with commanding authority. You value strength, clarity, and getting straight to the point.'' @
     [CHR 0x0A] @ ''Example tone: '' @ [CHR 0x22] @
     ''A worthy question! Let me hunt down this information and bring it back to you. Stand ready.'' @
     [CHR 0x22]"

definition BASE_INSTRUCTION :: string where
  "BASE_INSTRUCTION =
     ''Use Google Search grounding for every query to ensure real-time accuracy.'' @
     [CHR 0x0A] @
     ''Remember the conversation context and refer back to previous topics when relevant.'' @
     [CHR 0x0A] @ ''Maintain your persona'' @ [CHR 0x27] @
     ''s unique voice consistently throughout the conversation.''"

definition LF :: string where
  "LF = [CHR 0x0A]"

section \<open>The voice-mode instruction builder\<close>

definition formatMessage :: "ChatMessage \<Rightarrow> string" where
  "formatMessage msg = (if role msg = USER then ''User'' else ''Assistant'') @ '': '' @ content msg"

definition voiceTemplate :: "VoicePersona \<Rightarrow> string" where
  "voiceTemplate persona =
     PERSONA_PERSONALITIES persona @ LF @ LF @
     ''You can clear the chat, set volume, and set speed using your tools. '' @ BASE_INSTRUCTION"

definition recentHistory :: "ChatMessage list \<Rightarrow> ChatMessage list" where
  "recentHistory history = js_slice (- 10) history"

definition historyContext :: "ChatMessage list \<Rightarrow> string" where
  "historyContext history = js_join LF (map formatMessage (recentHistory history))"

definition buildVoiceSystemInstruction :: "VoicePersona \<Rightarrow> ChatMessage list \<Rightarrow> string" where
  "buildVoiceSystemInstruction persona history =
     (let instruction = voiceTemplate persona
      in if length history > 0
         then instruction @ LF @ LF @ ''--- Previous Conversation Context ---'' @ LF @
              historyContext history @ LF @ ''--- End of Context ---'' @ LF @
              ''Continue the conversation naturally, referencing previous topics when relevant.''
         else instruction)"

section \<open>The SDK boundary\<close>

text \<open>
  The requests and replies of the hosted API, with the fields the service reads or
  writes. A field that may be \<open>undefined\<close> is an option.
\<close>

record Content =
  content_role :: "string option"
  parts :: "string list"

record GenerateContentParameters =
  req_model :: string
  req_contents :: "Content list"
  req_systemInstruction :: "string option"
  req_googleSearch :: bool
  req_responseModalities :: "string list"
  req_voiceName :: "string option"

record WebChunk =
  web_title :: "string option"
  web_uri :: "string option"

record GroundingChunk =
  web :: "WebChunk option"

record GroundingMetadata =
  groundingChunks :: "GroundingChunk list option"

record Blob =
  data :: "string option"

record Part =
  inlineData :: "Blob option"

record ModelContent =
  content_parts :: "Part list option"

record Candidate =
  groundingMetadata :: "GroundingMetadata option"
  cand_content :: "ModelContent option"

record GenerateContentResponse =
  resp_text :: "string option"
  candidates :: "Candidate list option"

record FunctionCall =
  fc_id :: string
  fc_name :: string
  fc_args :: js_value

record ToolCall =
  functionCalls :: "FunctionCall list option"

record Transcription =
  transcription_text :: "string option"

record ServerContent =
  modelTurn :: "ModelContent option"
  inputTranscription :: "Transcription option"
  outputTranscription :: "Transcription option"
  turnComplete :: "bool option"
  interrupted :: "bool option"

record LiveServerMessage =
  toolCall :: "ToolCall option"
  serverContent :: "ServerContent option"

record FunctionResponse =
  response_id :: string
  response_name :: string
  response_result :: js_value

record LiveConnectConfig =
  live_model :: string
  live_voiceName :: string
  live_tools :: "string list"
  live_systemInstruction :: string

record AudioBuffer =
  duration :: real

text \<open>A client made by \<open>new GoogleGenAI({apiKey})\<close> holds the key it was given.\<close>

type_synonym client = "string option"

text \<open>
  Everything outside the service: the two configuration variables, the SDK's
  constructor and its one-shot call, the audio decoder of \<open>utils/audioUtils\<close> (not part
  of the sources at hand, so a parameter), the microphone permission, and whether
  \<open>stop()\<close> on a source or \<open>sendToolResponse\<close> on a closing session throws.
  \<open>key_refused\<close> is the SDK's own check of a client's key when a one-shot call is made
  with it: the error the call fails with before anything is sent, if the key is refused.
\<close>

record environment =
  API_KEY :: "string option"
  GEMINI_API_KEY :: "string option"
  GoogleGenAI :: "string option \<Rightarrow> js_error + client"
  generateContent :: "client \<Rightarrow> GenerateContentParameters \<Rightarrow> js_error + GenerateContentResponse"
  decodeAudioData :: "string \<Rightarrow> js_error + AudioBuffer"
  getUserMedia :: "js_error + unit"
  stop_throws :: "nat \<Rightarrow> bool"
  sendToolResponse_throws :: "FunctionResponse \<Rightarrow> bool"
  key_refused :: "client \<Rightarrow> js_error option"

section \<open>The one-shot chat client\<close>

record ChatResult =
  res_text :: string
  res_sources :: "GroundingSource list option"

definition toContent :: "ChatMessage \<Rightarrow> Content" where
  "toContent msg =
     \<lparr>content_role = Some (if role msg = USER then ''user'' else ''model''), parts = [content msg]\<rparr>"

definition conversationContents :: "string \<Rightarrow> ChatMessage list \<Rightarrow> Content list" where
  "conversationContents txt history =
     map toContent history @ [\<lparr>content_role = Some ''user'', parts = [txt]\<rparr>]"

definition chatSystemInstruction :: "VoicePersona \<Rightarrow> string" where
  "chatSystemInstruction persona = PERSONA_PERSONALITIES persona @ LF @ LF @ BASE_INSTRUCTION"

definition chatRequest :: "string \<Rightarrow> ModelType \<Rightarrow> ChatMessage list \<Rightarrow> VoicePersona \<Rightarrow> GenerateContentParameters" where
  "chatRequest txt model history persona =
     \<lparr>req_model = model_name model,
      req_contents = conversationContents txt history,
      req_systemInstruction = Some (chatSystemInstruction persona),
      req_googleSearch = True,
      req_responseModalities = [],
      req_voiceName = None\<rparr>"

text \<open>\<open>response.candidates?.[0]?.groundingMetadata?.groundingChunks\<close>\<close>

definition groundingChunksOf :: "GenerateContentResponse \<Rightarrow> GroundingChunk list option" where
  "groundingChunksOf response =
     (case first_of (candidates response) of
        None \<Rightarrow> None
      | Some c \<Rightarrow> (case groundingMetadata c of None \<Rightarrow> None | Some g \<Rightarrow> groundingChunks g))"

text \<open>The \<open>forEach\<close> that pushes one source per chunk with a web part and a non-empty uri.\<close>

fun collectSources :: "GroundingChunk list \<Rightarrow> GroundingSource list" where
  "collectSources [] = []"
| "collectSources (chunk # rest) =
     (case web chunk of
        None \<Rightarrow> collectSources rest
      | Some w \<Rightarrow>
          (case web_uri w of
             None \<Rightarrow> collectSources rest
           | Some u \<Rightarrow>
               if u \<noteq> []
               then \<lparr>title = str_or_default (web_title w) ''DATA_NODE'', uri = u\<rparr> # collectSources rest
               else collectSources rest))"

definition sourcesOf :: "GenerateContentResponse \<Rightarrow> GroundingSource list" where
  "sourcesOf response =
     (case groundingChunksOf response of None \<Rightarrow> [] | Some chunks \<Rightarrow> collectSources chunks)"

text \<open>\<open>sources.filter((v, i, a) => a.findIndex(t => t.uri === v.uri) === i)\<close>\<close>

definition uniqueSources :: "GroundingSource list \<Rightarrow> GroundingSource list" where
  "uniqueSources srcs = js_filter (\<lambda>v i a. findIndex (\<lambda>t. uri t = uri v) a = i) srcs"

definition chatResult :: "GenerateContentResponse \<Rightarrow> ChatResult" where
  "chatResult response =
     (let outputText = str_or_default (resp_text response) ''NO_RESPONSE_RECEIVED'';
          unique = uniqueSources (sourcesOf response)
      in \<lparr>res_text = outputText,
          res_sources = (if length unique > 0 then Some unique else None)\<rparr>)"

text \<open>
  The call returns what the promise settles to (\<open>Inl\<close> a rejection) together with the
  requests it sent over the network, in order. The key is checked before the client is
  made, so the client's key is never empty when the request is made.
\<close>

definition sendChatMessage ::
  "environment \<Rightarrow> string \<Rightarrow> ModelType \<Rightarrow> ChatMessage list \<Rightarrow> VoicePersona
     \<Rightarrow> (js_error + ChatResult) \<times> GenerateContentParameters list" where
  "sendChatMessage env txt model history persona =
     (let apiKey = str_or (API_KEY env) (GEMINI_API_KEY env)
      in if \<not> truthy_str apiKey
         then (Inl (Error ''GEMINI_API_KEY is not configured''), [])
         else
           (case GoogleGenAI env apiKey of
              Inl e \<Rightarrow> (Inl e, [])
            | Inr ai \<Rightarrow>
                (let request = chatRequest txt model history persona
                 in case generateContent env ai request of
                      Inl e \<Rightarrow> (Inl e, [request])
                    | Inr response \<Rightarrow> (Inr (chatResult response), [request]))))"

text \<open>
  The specification's wording of the deduplication, for comparison with
  \<open>uniqueSources\<close>: walk the list once, keep a source when its uri has not been seen.
\<close>

fun dedupe_first_seen :: "string list \<Rightarrow> GroundingSource list \<Rightarrow> GroundingSource list" where
  "dedupe_first_seen seen [] = []"
| "dedupe_first_seen seen (x # xs) =
     (if uri x \<in> set seen then dedupe_first_seen seen xs
      else x # dedupe_first_seen (uri x # seen) xs)"

section \<open>The service state\<close>

record AudioContext =
  sampleRate :: nat

text \<open>
  A gain node: its current value and the last smoothed transition asked for with
  \<open>setTargetAtTime(target, startTime, timeConstant)\<close>.
\<close>

record GainNode =
  gain_value :: real
  gain_target :: "(real \<times> real \<times> real) option"

text \<open>
  A buffer source node is an object: \<open>node_id\<close> stands for its identity, \<open>startWhen\<close>
  for the time it was given to \<open>start\<close>.
\<close>

record AudioBufferSourceNode =
  node_id :: nat
  buffer :: AudioBuffer
  playbackRate :: real
  startWhen :: real

datatype audio_call = SourceStart nat real | SourceStop nat

datatype net_call = GenerateContentCall GenerateContentParameters | LiveConnectCall LiveConnectConfig

text \<open>
  The fields of \<open>GeminiService\<close>, followed by what the service does to the world
  outside it: how many source nodes it has created, the lines it wrote to the console,
  the network calls it made and the \<open>start\<close>/\<open>stop\<close> calls it made on source nodes.
\<close>

record GeminiService =
  audioContext :: "AudioContext option"
  outputNode :: "GainNode option"
  nextStartTime :: real
  activeSources :: "AudioBufferSourceNode list"
  currentAudioSettings :: AudioSettings
  nodesCreated :: nat
  console :: "string list"
  network :: "net_call list"
  audioCalls :: "audio_call list"

definition gemini :: GeminiService where
  "gemini =
     \<lparr>audioContext = None, outputNode = None, nextStartTime = 0, activeSources = [],
      currentAudioSettings = \<lparr>volume = 8 / 10, speed = 1\<rparr>,
      nodesCreated = 0, console = [], network = [], audioCalls = []\<rparr>"

text \<open>
  The clock of the output context is read by the caller and passed as \<open>now\<close>:
  \<open>this.audioContext?.currentTime || 0\<close> is \<open>now\<close> when the context exists.
\<close>

definition setAudioSettings :: "real \<Rightarrow> AudioSettings \<Rightarrow> GeminiService \<Rightarrow> GeminiService" where
  "setAudioSettings now settings st =
     (let st1 = st\<lparr>currentAudioSettings := settings\<rparr>
      in case outputNode st1 of
           None \<Rightarrow> st1
         | Some g \<Rightarrow>
             st1\<lparr>outputNode :=
               Some (g\<lparr>gain_target :=
                 Some (volume settings, (case audioContext st1 of None \<Rightarrow> 0 | Some c \<Rightarrow> now), 1 / 10)\<rparr>)\<rparr>)"

text \<open>\<open>s.stop()\<close> on one source: the call is made, and may throw.\<close>

definition source_stop :: "environment \<Rightarrow> AudioBufferSourceNode \<Rightarrow> js_error + unit" where
  "source_stop env s = (if stop_throws env (node_id s) then Inl (Error ''InvalidStateError'') else Inr ())"

text \<open>\<open>try { s.stop(); } catch (e) {}\<close> for every tracked source, in insertion order.\<close>

fun stopEach :: "environment \<Rightarrow> AudioBufferSourceNode list \<Rightarrow> audio_call list \<Rightarrow> audio_call list" where
  "stopEach env [] calls = calls"
| "stopEach env (s # rest) calls =
     (case source_stop env s of
        Inl e \<Rightarrow> stopEach env rest (calls @ [SourceStop (node_id s)])
      | Inr u \<Rightarrow> stopEach env rest (calls @ [SourceStop (node_id s)]))"

definition stopAudio :: "environment \<Rightarrow> GeminiService \<Rightarrow> GeminiService" where
  "stopAudio env st =
     st\<lparr>audioCalls := stopEach env (activeSources st) (audioCalls st),
        activeSources := [],
        nextStartTime := 0\<rparr>"

text \<open>The \<open>ended\<close> listener of a source: \<open>this.activeSources.delete(source)\<close>.\<close>

definition sourceEnded :: "nat \<Rightarrow> GeminiService \<Rightarrow> GeminiService" where
  "sourceEnded n st = st\<lparr>activeSources := filter (\<lambda>s. node_id s \<noteq> n) (activeSources st)\<rparr>"

text \<open>The lazy creation of the output context and its gain node (a new gain node has gain 1).\<close>

definition ensureOutput :: "GeminiService \<Rightarrow> GeminiService" where
  "ensureOutput st =
     (if audioContext st = None
      then st\<lparr>audioContext := Some \<lparr>sampleRate = 24000\<rparr>,
              outputNode := Some \<lparr>gain_value = 1, gain_target = None\<rparr>\<rparr>
      else st)"

text \<open>\<open>content?.parts?.[0]?.inlineData?.data\<close>\<close>

definition inlineAudioOf :: "ModelContent option \<Rightarrow> string option" where
  "inlineAudioOf c =
     (case c of
        None \<Rightarrow> None
      | Some mc \<Rightarrow>
          (case first_of (content_parts mc) of
             None \<Rightarrow> None
           | Some pt \<Rightarrow> (case inlineData pt of None \<Rightarrow> None | Some b \<Rightarrow> data b)))"

section \<open>One-shot speech\<close>

definition ttsRequest :: "string \<Rightarrow> VoicePersona \<Rightarrow> GenerateContentParameters" where
  "ttsRequest txt voicePersona =
     \<lparr>req_model = ''gemini-2.5-flash-preview-tts'',
      req_contents = [\<lparr>content_role = None, parts = [''Say this precisely: '' @ txt]\<rparr>],
      req_systemInstruction = None,
      req_googleSearch = False,
      req_responseModalities = [''AUDIO''],
      req_voiceName = Some (voice_name voicePersona)\<rparr>"

text \<open>
  The part of \<open>speakText\<close> after a reply with audio has arrived. A throw leaves the
  state as it was at the throw.
\<close>

definition playOnce :: "environment \<Rightarrow> real \<Rightarrow> string \<Rightarrow> GeminiService \<Rightarrow> js_error option \<times> GeminiService" where
  "playOnce env now base64Audio st =
     (let st1 = ensureOutput st
      in case outputNode st1 of
           None \<Rightarrow> (Some (Error ''TypeError''), st1)
         | Some g \<Rightarrow>
             (let st2 = st1\<lparr>outputNode := Some (g\<lparr>gain_value := volume (currentAudioSettings st1)\<rparr>)\<rparr>
              in case decodeAudioData env base64Audio of
                   Inl e \<Rightarrow> (Some e, st2)
                 | Inr audioBuffer \<Rightarrow>
                     (let source = \<lparr>node_id = nodesCreated st2, buffer = audioBuffer,
                                    playbackRate = speed (currentAudioSettings st2), startWhen = now\<rparr>
                      in (None,
                          st2\<lparr>nodesCreated := nodesCreated st2 + 1,
                              audioCalls := audioCalls st2 @ [SourceStart (node_id source) now],
                              activeSources := activeSources st2 @ [source]\<rparr>))))"

text \<open>\<open>response.candidates?.[0]?.content?.parts?.[0]?.inlineData?.data\<close>\<close>

definition speechAudio :: "GenerateContentResponse \<Rightarrow> string option" where
  "speechAudio response =
     (case first_of (candidates response) of
        None \<Rightarrow> None
      | Some c \<Rightarrow> inlineAudioOf (cand_content c))"

text \<open>
  A one-shot speech call while it awaits the reply: either the SDK refused the call
  before sending anything, so that the awaited promise is already rejected, or the
  request is on its way.
\<close>

datatype pending_speech = Refused js_error | Awaiting client GenerateContentParameters

text \<open>
  \<open>speakText\<close> up to its \<open>await\<close>: playback is halted, the client is made (before the
  \<open>try\<close> block, so that a throwing constructor rejects the call: \<open>Inl\<close>), and the request
  is made. It is recorded as a network call only when the SDK does not refuse it.
\<close>

definition speakText_start :: "environment \<Rightarrow> string \<Rightarrow> VoicePersona \<Rightarrow> GeminiService \<Rightarrow> (js_error + pending_speech) \<times> GeminiService" where
  "speakText_start env txt voicePersona st =
     (let st0 = stopAudio env st
      in case GoogleGenAI env (API_KEY env) of
           Inl e \<Rightarrow> (Inl e, st0)
         | Inr ai \<Rightarrow>
             (let request = ttsRequest txt voicePersona
              in case key_refused env ai of
                   Some e \<Rightarrow> (Inr (Refused e), st0)
                 | None \<Rightarrow>
                     (Inr (Awaiting ai request),
                      st0\<lparr>network := network st0 @ [GenerateContentCall request]\<rparr>)))"

text \<open>
  The rest of the \<open>try\<close> block, run when the awaited promise settles, on the state of
  the service at that moment and with the clock reading of that moment.
\<close>

definition speakBody :: "environment \<Rightarrow> real \<Rightarrow> pending_speech \<Rightarrow> GeminiService \<Rightarrow> js_error option \<times> GeminiService" where
  "speakBody env now pending st =
     (case pending of
        Refused e \<Rightarrow> (Some e, st)
      | Awaiting ai request \<Rightarrow>
          (case generateContent env ai request of
             Inl e \<Rightarrow> (Some e, st)
           | Inr response \<Rightarrow>
               (case speechAudio response of
                  None \<Rightarrow> (None, st)
                | Some d \<Rightarrow> if d \<noteq> [] then playOnce env now d st else (None, st))))"

text \<open>
  The continuation of \<open>speakText\<close> after its \<open>await\<close>: the rest of the \<open>try\<close> block, and the
  \<open>catch\<close> that writes one console line and drops the error.
\<close>

definition speakText_resume :: "environment \<Rightarrow> real \<Rightarrow> pending_speech \<Rightarrow> GeminiService \<Rightarrow> GeminiService" where
  "speakText_resume env now pending st =
     (case speakBody env now pending st of
        (Some err, st1) \<Rightarrow> st1\<lparr>console := console st1 @ [''TTS failed:'']\<rparr>
      | (None, st1) \<Rightarrow> st1)"

text \<open>
  A call of \<open>speakText\<close> during whose \<open>await\<close> nothing else runs: the first component is
  the rejection that reaches the caller, if any.
\<close>

definition speakText :: "environment \<Rightarrow> real \<Rightarrow> string \<Rightarrow> VoicePersona \<Rightarrow> GeminiService \<Rightarrow> js_error option \<times> GeminiService" where
  "speakText env now txt voicePersona st =
     (case speakText_start env txt voicePersona st of
        (Inl e, st0) \<Rightarrow> (Some e, st0)
      | (Inr pending, st0) \<Rightarrow> (None, speakText_resume env now pending st0))"

section \<open>The live session\<close>

text \<open>
  What a session does to its caller and to the wire, in order: the tool handler it
  invoked, the tool responses it sent, and the callbacks it made.
\<close>

datatype session_event =
  ToolCallInvoked string js_value
| ToolResponseSent FunctionResponse
| OnTranscription string bool
| OnTurnComplete string string
| OnError js_error

text \<open>
  The variables the callbacks of one \<open>connectLive\<close> call close over, and the session's
  events. \<open>activeSession\<close>, \<open>scriptProcessor\<close>: whether the variable is non-null.
\<close>

record session =
  currentInputText :: string
  currentOutputText :: string
  activeSession :: bool
  scriptProcessor :: bool
  streamLive :: bool
  inputContextOpen :: bool
  events :: "session_event list"

text \<open>
  The caller's optional tool handler: the value its promise resolves to, or the error it
  rejects with.
\<close>

type_synonym tool_handler = "string \<Rightarrow> js_value \<Rightarrow> js_error + js_value"

definition emit :: "session_event \<Rightarrow> session \<Rightarrow> session" where
  "emit ev ss = ss\<lparr>events := events ss @ [ev]\<rparr>"

text \<open>
  The guarded send of one tool response: nothing is sent when the session variable is
  null, and a throw of the send is caught and dropped.
\<close>

definition sendToolResponse :: "environment \<Rightarrow> FunctionResponse \<Rightarrow> session \<Rightarrow> session" where
  "sendToolResponse env r ss =
     (if activeSession ss
      then (if sendToolResponse_throws env r then ss else emit (ToolResponseSent r) ss)
      else ss)"

text \<open>The loop over \<open>message.toolCall.functionCalls\<close>; a rejecting handler ends it.\<close>

fun handleFunctionCalls :: "environment \<Rightarrow> tool_handler \<Rightarrow> FunctionCall list \<Rightarrow> session \<Rightarrow> js_error option \<times> session" where
  "handleFunctionCalls env handler [] ss = (None, ss)"
| "handleFunctionCalls env handler (fc # rest) ss =
     (let ss1 = emit (ToolCallInvoked (fc_name fc) (fc_args fc)) ss
      in case handler (fc_name fc) (fc_args fc) of
           Inl e \<Rightarrow> (Some e, ss1)
         | Inr result \<Rightarrow>
             handleFunctionCalls env handler rest
               (sendToolResponse env
                  \<lparr>response_id = fc_id fc, response_name = fc_name fc,
                   response_result = js_or result (JString ''OK'')\<rparr> ss1))"

definition toolCallStage :: "environment \<Rightarrow> tool_handler option \<Rightarrow> LiveServerMessage \<Rightarrow> session \<Rightarrow> js_error option \<times> session" where
  "toolCallStage env onToolCall message ss =
     (case toolCall message of
        None \<Rightarrow> (None, ss)
      | Some tc \<Rightarrow>
          (case onToolCall of
             None \<Rightarrow> (None, ss)
           | Some handler \<Rightarrow>
               (case functionCalls tc of
                  None \<Rightarrow> (Some (Error ''TypeError''), ss)
                | Some fcs \<Rightarrow> handleFunctionCalls env handler fcs ss)))"

text \<open>
  Scheduling one inbound chunk. The cursor is raised to the clock before the decoder
  is awaited, so a failing decode leaves it raised. The quotient is the real one.
\<close>

definition enqueueChunk :: "environment \<Rightarrow> real \<Rightarrow> string \<Rightarrow> GeminiService \<Rightarrow> js_error option \<times> GeminiService" where
  "enqueueChunk env now base64Audio st =
     (let st1 = st\<lparr>nextStartTime := max (nextStartTime st) now\<rparr>
      in case decodeAudioData env base64Audio of
           Inl e \<Rightarrow> (Some e, st1)
         | Inr audioBuffer \<Rightarrow>
             (let source = \<lparr>node_id = nodesCreated st1, buffer = audioBuffer,
                            playbackRate = speed (currentAudioSettings st1),
                            startWhen = nextStartTime st1\<rparr>
              in (None,
                  st1\<lparr>nodesCreated := nodesCreated st1 + 1,
                      audioCalls := audioCalls st1 @ [SourceStart (node_id source) (nextStartTime st1)],
                      nextStartTime := nextStartTime st1 + duration audioBuffer / speed (currentAudioSettings st1),
                      activeSources := activeSources st1 @ [source]\<rparr>)))"

text \<open>\<open>message.serverContent?.modelTurn?.parts?.[0]?.inlineData?.data\<close>\<close>

definition messageAudio :: "LiveServerMessage \<Rightarrow> string option" where
  "messageAudio message =
     (case serverContent message of None \<Rightarrow> None | Some sc \<Rightarrow> inlineAudioOf (modelTurn sc))"

definition audioStage :: "environment \<Rightarrow> real \<Rightarrow> LiveServerMessage \<Rightarrow> GeminiService \<Rightarrow> js_error option \<times> GeminiService" where
  "audioStage env now message st =
     (case messageAudio message of
        None \<Rightarrow> (None, st)
      | Some d \<Rightarrow>
          if d \<noteq> [] \<and> audioContext st \<noteq> None \<and> outputNode st \<noteq> None
          then enqueueChunk env now d st
          else (None, st))"

definition transcriptionStage :: "LiveServerMessage \<Rightarrow> session \<Rightarrow> session" where
  "transcriptionStage message ss =
     (let ss1 =
            (case (case serverContent message of None \<Rightarrow> None | Some sc \<Rightarrow> inputTranscription sc) of
               None \<Rightarrow> ss
             | Some t \<Rightarrow>
                 (let txt = js_append (currentInputText ss) (transcription_text t)
                  in emit (OnTranscription txt True) (ss\<lparr>currentInputText := txt\<rparr>)))
      in case (case serverContent message of None \<Rightarrow> None | Some sc \<Rightarrow> outputTranscription sc) of
           None \<Rightarrow> ss1
         | Some t \<Rightarrow>
             (let txt = js_append (currentOutputText ss1) (transcription_text t)
              in emit (OnTranscription txt False) (ss1\<lparr>currentOutputText := txt\<rparr>)))"

definition flag :: "LiveServerMessage \<Rightarrow> (ServerContent \<Rightarrow> bool option) \<Rightarrow> bool" where
  "flag message f =
     (case serverContent message of None \<Rightarrow> False | Some sc \<Rightarrow> (case f sc of None \<Rightarrow> False | Some b \<Rightarrow> b))"

definition turnCompleteStage :: "LiveServerMessage \<Rightarrow> session \<Rightarrow> session" where
  "turnCompleteStage message ss =
     (if flag message turnComplete
      then (emit (OnTurnComplete (currentInputText ss) (currentOutputText ss)) ss)
             \<lparr>currentInputText := [], currentOutputText := []\<rparr>
      else ss)"

text \<open>
  The \<open>onmessage\<close> callback, run to completion: the first component is the rejection of
  its promise, if any, with the state as it stood then.
\<close>

definition onmessage ::
  "environment \<Rightarrow> tool_handler option \<Rightarrow> real \<Rightarrow> LiveServerMessage \<Rightarrow> GeminiService \<times> session
     \<Rightarrow> js_error option \<times> GeminiService \<times> session" where
  "onmessage env onToolCall now message sys =
     (case toolCallStage env onToolCall message (snd sys) of
        (Some e, ss1) \<Rightarrow> (Some e, fst sys, ss1)
      | (None, ss1) \<Rightarrow>
          (case audioStage env now message (fst sys) of
             (Some e, st1) \<Rightarrow> (Some e, st1, ss1)
           | (None, st1) \<Rightarrow>
               (let ss2 = transcriptionStage message ss1;
                    ss3 = turnCompleteStage message ss2;
                    st2 = (if flag message interrupted then stopAudio env st1 else st1)
                in (None, st2, ss3))))"

definition liveConfig :: "VoicePersona \<Rightarrow> ChatMessage list \<Rightarrow> LiveConnectConfig" where
  "liveConfig voicePersona history =
     \<lparr>live_model = ''gemini-2.5-flash-native-audio-preview-09-2025'',
      live_voiceName = voice_name voicePersona,
      live_tools = [''clear_chat'', ''set_volume'', ''set_speed''],
      live_systemInstruction = buildVoiceSystemInstruction voicePersona history\<rparr>"

definition newSession :: session where
  "newSession =
     \<lparr>currentInputText = [], currentOutputText = [], activeSession = False, scriptProcessor = False,
      streamLive = True, inputContextOpen = True, events = []\<rparr>"

text \<open>
  \<open>connectLive\<close> up to the return of the handle. \<open>Threw\<close> is a rejection reaching the
  caller, \<open>ReturnedNull\<close> the \<open>null\<close> result after the error callback, \<open>Handle\<close> the
  session handle with the variables it closes over.
\<close>

datatype connect_result = Threw js_error | ReturnedNull "session_event list" | Handle session

definition connectLive :: "environment \<Rightarrow> real \<Rightarrow> VoicePersona \<Rightarrow> ChatMessage list \<Rightarrow> GeminiService \<Rightarrow> connect_result \<times> GeminiService" where
  "connectLive env now voicePersona history st =
     (let apiKey = API_KEY env
      in if \<not> truthy_str apiKey
         then (ReturnedNull [OnError (Error ''API_KEY_MISSING'')],
               st\<lparr>console := console st @ [''GEMINI_API_KEY is not configured'']\<rparr>)
         else
           (case GoogleGenAI env apiKey of
              Inl e \<Rightarrow> (Threw e, st)
            | Inr ai \<Rightarrow>
                (let st1 = ensureOutput st
                 in case outputNode st1 of
                      None \<Rightarrow> (Threw (Error ''TypeError''), st1)
                    | Some g \<Rightarrow>
                        (let st2 = st1\<lparr>outputNode :=
                               Some (g\<lparr>gain_target := Some (volume (currentAudioSettings st1), now, 1 / 10)\<rparr>)\<rparr>
                         in case getUserMedia env of
                              Inl e \<Rightarrow>
                                (ReturnedNull [OnError (Error ''MIC_ACCESS_DENIED'')],
                                 st2\<lparr>console := console st2 @ [''Microphone access denied:'']\<rparr>)
                            | Inr stream \<Rightarrow>
                                (Handle newSession,
                                 st2\<lparr>network := network st2 @ [LiveConnectCall (liveConfig voicePersona history)]\<rparr>)))))"

text \<open>The \<open>stop\<close> capability of the handle.\<close>

definition sessionStop :: "environment \<Rightarrow> GeminiService \<times> session \<Rightarrow> GeminiService \<times> session" where
  "sessionStop env sys =
     (stopAudio env (fst sys),
      (snd sys)\<lparr>activeSession := False, scriptProcessor := False, streamLive := False,
                inputContextOpen := False\<rparr>)"

section \<open>The operations of the service as steps\<close>

datatype operation =
  OpSetAudioSettings AudioSettings
| OpSpeakText string VoicePersona
| OpSpeakStart string VoicePersona
| OpSpeakResume pending_speech
| OpConnectLive VoicePersona "ChatMessage list"
| OpSessionOpen
| OpMessage LiveServerMessage
| OpSessionError js_error
| OpSessionClose
| OpSessionStop
| OpStopAudio
| OpSourceEnded nat

text \<open>
  One operation run to completion at clock reading \<open>now\<close>. An operation that throws
  leaves the state as it stood at the throw; a failed \<open>connectLive\<close> leaves the session
  variables of the previous handle. \<open>OpSpeakText\<close> is a call of \<open>speakText\<close> that nothing
  overlaps; \<open>OpSpeakStart\<close> and \<open>OpSpeakResume\<close> are its two halves, between which other
  operations may run.
\<close>

fun step :: "environment \<Rightarrow> tool_handler option \<Rightarrow> real \<Rightarrow> operation \<Rightarrow> GeminiService \<times> session \<Rightarrow> GeminiService \<times> session" where
  "step env h now (OpSetAudioSettings settings) sys = (setAudioSettings now settings (fst sys), snd sys)"
| "step env h now (OpSpeakText txt p) sys = (snd (speakText env now txt p (fst sys)), snd sys)"
| "step env h now (OpSpeakStart txt p) sys = (snd (speakText_start env txt p (fst sys)), snd sys)"
| "step env h now (OpSpeakResume pending) sys = (speakText_resume env now pending (fst sys), snd sys)"
| "step env h now (OpConnectLive p history) sys =
     (case connectLive env now p history (fst sys) of
        (Handle ss, st) \<Rightarrow> (st, ss)
      | (ReturnedNull evs, st) \<Rightarrow> (st, snd sys)
      | (Threw e, st) \<Rightarrow> (st, snd sys))"
| "step env h now OpSessionOpen sys = (fst sys, (snd sys)\<lparr>activeSession := True, scriptProcessor := True\<rparr>)"
| "step env h now (OpMessage m) sys = snd (onmessage env h now m sys)"
| "step env h now (OpSessionError e) sys = (fst sys, emit (OnError e) (snd sys))"
| "step env h now OpSessionClose sys = (fst sys, (snd sys)\<lparr>activeSession := False\<rparr>)"
| "step env h now OpSessionStop sys = sessionStop env sys"
| "step env h now OpStopAudio sys = (stopAudio env (fst sys), snd sys)"
| "step env h now (OpSourceEnded n) sys = (sourceEnded n (fst sys), snd sys)"

text \<open>
  The operations that halt playback: a manual halt, the stop of a session handle, the
  interrupt at the start of one-shot speech, and a message carrying the interruption
  signal.
\<close>

fun interrupts :: "operation \<Rightarrow> bool" where
  "interrupts (OpSpeakText txt p) = True"
| "interrupts (OpSpeakStart txt p) = True"
| "interrupts OpSessionStop = True"
| "interrupts OpStopAudio = True"
| "interrupts (OpMessage m) = flag m interrupted"
| "interrupts op = False"

text \<open>
  What one function call of a tool-call event is expected to leave in the session's
  events, for comparison with the loop: the invocation of the handler, then, when the
  handler resolves, the session variable is set (\<open>live\<close>) and the send does not throw,
  the response with the call's id and name and the handler's result or \<open>OK\<close>.
\<close>

definition expected_events :: "environment \<Rightarrow> tool_handler \<Rightarrow> bool \<Rightarrow> FunctionCall \<Rightarrow> session_event list" where
  "expected_events env handler live fc =
     ToolCallInvoked (fc_name fc) (fc_args fc) #
     (case handler (fc_name fc) (fc_args fc) of
        Inl e \<Rightarrow> []
      | Inr r \<Rightarrow>
          (let resp = \<lparr>response_id = fc_id fc, response_name = fc_name fc,
                       response_result = (if truthy r then r else JString ''OK'')\<rparr>
           in if live \<and> \<not> sendToolResponse_throws env resp then [ToolResponseSent resp] else []))"

text \<open>The handler invocations and the tool responses among a list of events, in order.\<close>

fun invocations :: "session_event list \<Rightarrow> (string \<times> js_value) list" where
  "invocations [] = []"
| "invocations (ToolCallInvoked n a # evs) = (n, a) # invocations evs"
| "invocations (ev # evs) = invocations evs"

fun responses :: "session_event list \<Rightarrow> FunctionResponse list" where
  "responses [] = []"
| "responses (ToolResponseSent r # evs) = r # responses evs"
| "responses (ev # evs) = responses evs"

text \<open>
  The output context and its gain node are created together: one exists when the other
  does.
\<close>

definition wired :: "GeminiService \<Rightarrow> bool" where
  "wired st = ((audioContext st = None) = (outputNode st = None))"

text \<open>
  An operation completes when its promise does not reject part-way; only \<open>onmessage\<close>
  can reject before it reaches its interruption check.
\<close>

fun completes :: "environment \<Rightarrow> tool_handler option \<Rightarrow> real \<Rightarrow> operation \<Rightarrow> GeminiService \<times> session \<Rightarrow> bool" where
  "completes env h now (OpMessage m) sys = (fst (onmessage env h now m sys) = None)"
| "completes env h now op sys = True"

text \<open>
  A run of inbound messages through the audio part of \<open>onmessage\<close>, each with the clock
  reading at its arrival; a rejection ends the run.
\<close>

fun audioRun :: "environment \<Rightarrow> (real \<times> LiveServerMessage) list \<Rightarrow> GeminiService \<Rightarrow> js_error option \<times> GeminiService" where
  "audioRun env [] st = (None, st)"
| "audioRun env (m # rest) st =
     (case audioStage env (fst m) (snd m) st of
        (Some e, st1) \<Rightarrow> (Some e, st1)
      | (None, st1) \<Rightarrow> audioRun env rest st1)"

text \<open>
  A message carries audio that decodes to the buffer \<open>b\<close>.
\<close>

definition decodes :: "environment \<Rightarrow> LiveServerMessage \<Rightarrow> AudioBuffer \<Rightarrow> bool" where
  "decodes env m b = (\<exists>d. messageAudio m = Some d \<and> d \<noteq> [] \<and> decodeAudioData env d = Inr b)"

text \<open>
  The timetable the specification describes, for comparison with \<open>audioRun\<close>: chunk by
  chunk, with speed \<open>s\<close>, next node number \<open>i\<close> and cursor \<open>c\<close>, each chunk given by its
  arrival time and its decoded buffer.
\<close>

fun timetable :: "real \<Rightarrow> nat \<Rightarrow> real \<Rightarrow> (real \<times> AudioBuffer) list \<Rightarrow> AudioBufferSourceNode list" where
  "timetable s i c [] = []"
| "timetable s i c (x # rest) =
     \<lparr>node_id = i, buffer = snd x, playbackRate = s, startWhen = max c (fst x)\<rparr>
       # timetable s (i + 1) (max c (fst x) + duration (snd x) / s) rest"

fun cursorAfter :: "real \<Rightarrow> real \<Rightarrow> (real \<times> AudioBuffer) list \<Rightarrow> real" where
  "cursorAfter s c [] = c"
| "cursorAfter s c (x # rest) = cursorAfter s (max c (fst x) + duration (snd x) / s) rest"

text \<open>The sources a result lists: none when the field is absent.\<close>

definition listed :: "ChatResult \<Rightarrow> GroundingSource list" where
  "listed r = (case res_sources r of None \<Rightarrow> [] | Some l \<Rightarrow> l)"

section \<open>Sample surroundings for the examples\<close>

text \<open>
  An environment with the two configuration variables as given, an SDK constructor
  that accepts any key, an SDK call that refuses a missing or empty key before sending,
  a backend that answers every request with \<open>reply\<close>, a decoder that answers \<open>decoded\<close>,
  a granted microphone, and no throwing \<open>stop\<close> or send.
\<close>

definition sample_environment ::
  "string option \<Rightarrow> string option \<Rightarrow> js_error + GenerateContentResponse \<Rightarrow> js_error + AudioBuffer \<Rightarrow> environment" where
  "sample_environment k1 k2 reply decoded =
     \<lparr>API_KEY = k1, GEMINI_API_KEY = k2,
      GoogleGenAI = (\<lambda>k. Inr k),
      generateContent = (\<lambda>ai request. reply),
      decodeAudioData = (\<lambda>d. decoded),
      getUserMedia = Inr (),
      stop_throws = (\<lambda>n. False),
      sendToolResponse_throws = (\<lambda>r. False),
      key_refused = (\<lambda>ai. if truthy_str ai then None else Some (Error ''API key must be set''))\<rparr>"

definition sample_message :: "MessageRole \<Rightarrow> string \<Rightarrow> ChatMessage" where
  "sample_message r c = \<lparr>msg_id = c, role = r, content = c, timestamp = 0, isVoice = None, sources = None\<rparr>"

definition web_chunk :: "string \<Rightarrow> string \<Rightarrow> GroundingChunk" where
  "web_chunk t u = \<lparr>web = Some \<lparr>web_title = Some t, web_uri = Some u\<rparr>\<rparr>"

definition grounded_reply :: "string option \<Rightarrow> GroundingChunk list \<Rightarrow> GenerateContentResponse" where
  "grounded_reply t chunks =
     \<lparr>resp_text = t,
      candidates = Some [\<lparr>groundingMetadata = Some \<lparr>groundingChunks = Some chunks\<rparr>, cand_content = None\<rparr>]\<rparr>"

definition audio_part :: "string \<Rightarrow> ModelContent" where
  "audio_part d = \<lparr>content_parts = Some [\<lparr>inlineData = Some \<lparr>data = Some d\<rparr>\<rparr>]\<rparr>"

definition server_message :: "ModelContent option \<Rightarrow> bool option \<Rightarrow> LiveServerMessage" where
  "server_message turn intr =
     \<lparr>toolCall = None,
      serverContent = Some \<lparr>modelTurn = turn, inputTranscription = None, outputTranscription = None,
                            turnComplete = None, interrupted = intr\<rparr>\<rparr>"

definition tool_message :: "FunctionCall list \<Rightarrow> LiveServerMessage" where
  "tool_message fcs = \<lparr>toolCall = Some \<lparr>functionCalls = Some fcs\<rparr>, serverContent = None\<rparr>"

text \<open>The service after its output context was created, at double speed.\<close>

definition sample_service :: GeminiService where
  "sample_service = setAudioSettings 0 \<lparr>volume = 1 / 2, speed = 2\<rparr> (ensureOutput gemini)"

text \<open>Tool handlers: one that resolves to the same value for every call, and one that
  confirms a volume change and resolves to \<open>undefined\<close> for every other call.\<close>

definition constant_handler :: "js_value \<Rightarrow> tool_handler" where
  "constant_handler v name args = Inr v"

definition sample_handler :: tool_handler where
  "sample_handler name args =
     (if name = ''set_volume'' then Inr (JString ''Volume set to 50'') else Inr JUndefined)"

definition sample_call :: "string \<Rightarrow> string \<Rightarrow> FunctionCall" where
  "sample_call i n = \<lparr>fc_id = i, fc_name = n, fc_args = JObject []\<rparr>"

definition live_session :: session where
  "live_session = newSession\<lparr>activeSession := True, scriptProcessor := True\<rparr>"

definition speech_reply :: "string \<Rightarrow> GenerateContentResponse" where
  "speech_reply d =
     \<lparr>resp_text = None,
      candidates = Some [\<lparr>groundingMetadata = None, cand_content = Some (audio_part d)\<rparr>]\<rparr>"

section \<open>Halting playback\<close>

lemma stopEach_calls: "stopEach env xs calls = calls @ map (\<lambda>s. SourceStop (node_id s)) xs"
  by (induction xs arbitrary: calls) (auto split: sum.splits)

lemma stopAudio_eq:
  "stopAudio env st =
     st\<lparr>audioCalls := audioCalls st @ map (\<lambda>s. SourceStop (node_id s)) (activeSources st),
        activeSources := [], nextStartTime := 0\<rparr>"
  by (simp add: stopAudio_def stopEach_calls)

text \<open>
  Claim C3. After \<open>stopAudio\<close> no source is tracked and the cursor is 0, however many
  sources were tracked before. A second \<open>stopAudio\<close> changes nothing. A \<open>stop()\<close> that
  throws is caught: which sources throw has no influence on the result, and the
  operation always returns a state.
\<close>

theorem stopAudio_clears_and_is_idempotent:
  "activeSources (stopAudio env st) = [] \<and>
   nextStartTime (stopAudio env st) = 0 \<and>
   stopAudio env (stopAudio env st) = stopAudio env st \<and>
   stopAudio (env\<lparr>stop_throws := t\<rparr>) st = stopAudio env st"
  by (simp add: stopAudio_eq)

section \<open>The one-shot chat client\<close>

lemma findIndex_from_range: "findIndex_from p xs i = - 1 \<or> i \<le> findIndex_from p xs i"
proof (induction xs arbitrary: i)
  case Nil
  show ?case by simp
next
  case (Cons x xs)
  from Cons.IH [of "i + 1"] show ?case by auto
qed

lemma findIndex_from_first:
  "0 \<le> i \<Longrightarrow>
   (findIndex_from p (pre @ x # xs) i = i + int (length pre)) = (p x \<and> (\<forall>y\<in>set pre. \<not> p y))"
proof (induction pre arbitrary: i)
  case Nil
  from findIndex_from_range [of p xs "i + 1"] Nil show ?case by auto
next
  case (Cons y pre)
  from Cons.IH [of "i + 1"] Cons.prems show ?case by (auto simp: algebra_simps)
qed

lemma dedupe_first_seen_cong:
  "set s1 = set s2 \<Longrightarrow> dedupe_first_seen s1 xs = dedupe_first_seen s2 xs"
proof (induction xs arbitrary: s1 s2)
  case Nil
  show ?case by simp
next
  case (Cons x xs)
  have "dedupe_first_seen (uri x # s1) xs = dedupe_first_seen (uri x # s2) xs"
    by (rule Cons.IH) (simp add: Cons.prems)
  moreover have "dedupe_first_seen s1 xs = dedupe_first_seen s2 xs"
    by (rule Cons.IH) (rule Cons.prems)
  ultimately show ?case using Cons.prems by simp
qed

lemma filter_from_dedupe:
  "filter_from (\<lambda>v i a. findIndex (\<lambda>t. uri t = uri v) a = i) (pre @ xs) xs (int (length pre))
     = dedupe_first_seen (map uri pre) xs"
proof (induction xs arbitrary: pre)
  case Nil
  show ?case by simp
next
  case (Cons x xs)
  have test: "(findIndex (\<lambda>t. uri t = uri x) (pre @ x # xs) = int (length pre)) = (uri x \<notin> set (map uri pre))"
  proof -
    have "(findIndex_from (\<lambda>t. uri t = uri x) (pre @ x # xs) 0 = 0 + int (length pre))
            = (uri x = uri x \<and> (\<forall>y\<in>set pre. \<not> uri y = uri x))"
      by (rule findIndex_from_first) simp
    then have "(findIndex (\<lambda>t. uri t = uri x) (pre @ x # xs) = int (length pre))
            = (\<forall>y\<in>set pre. uri y \<noteq> uri x)"
      by (simp add: findIndex_def)
    also have "\<dots> = (uri x \<notin> set (map uri pre))"
      by (simp add: image_iff) metis
    finally show ?thesis .
  qed
  have rest: "filter_from (\<lambda>v i a. findIndex (\<lambda>t. uri t = uri v) a = i) (pre @ x # xs) xs (int (length pre) + 1)
     = dedupe_first_seen (map uri (pre @ [x])) xs"
    using Cons.IH [of "pre @ [x]"] by (simp add: add.commute)
  show ?case
  proof (cases "uri x \<in> set (map uri pre)")
    case True
    then have "dedupe_first_seen (map uri (pre @ [x])) xs = dedupe_first_seen (map uri pre) xs"
      by (intro dedupe_first_seen_cong) auto
    with True test rest show ?thesis by simp
  next
    case False
    have "dedupe_first_seen (map uri (pre @ [x])) xs = dedupe_first_seen (uri x # map uri pre) xs"
      by (intro dedupe_first_seen_cong) auto
    with False test rest show ?thesis by simp
  qed
qed

lemma uniqueSources_dedupe: "uniqueSources xs = dedupe_first_seen [] xs"
  using filter_from_dedupe [of "[]" xs] by (simp add: uniqueSources_def js_filter_def)

lemma dedupe_uris: "set (map uri (dedupe_first_seen seen xs)) = set (map uri xs) - set seen"
  by (induction xs arbitrary: seen) auto

lemma dedupe_distinct: "distinct (map uri (dedupe_first_seen seen xs))"
  by (induction xs arbitrary: seen) (auto simp: dedupe_uris simp del: set_map)

lemma dedupe_subseq: "subseq (dedupe_first_seen seen xs) xs"
  by (induction xs arbitrary: seen) auto

lemma dedupe_first:
  "y \<in> set (dedupe_first_seen seen xs) \<Longrightarrow> find (\<lambda>t. uri t = uri y) xs = Some y"
proof (induction xs arbitrary: seen)
  case Nil
  then show ?case by simp
next
  case (Cons x xs)
  show ?case
  proof (cases "uri x \<in> set seen")
    case True
    with Cons.prems have y: "y \<in> set (dedupe_first_seen seen xs)" by simp
    then have "uri y \<in> set (map uri (dedupe_first_seen seen xs))" by simp
    then have "uri y \<notin> set seen" unfolding dedupe_uris by simp
    with True have "uri x \<noteq> uri y" by auto
    with Cons.IH [OF y] show ?thesis by simp
  next
    case False
    with Cons.prems consider "y = x" | "y \<in> set (dedupe_first_seen (uri x # seen) xs)" by auto
    then show ?thesis
    proof cases
      case 1
      then show ?thesis by simp
    next
      case 2
      then have "uri y \<in> set (map uri (dedupe_first_seen (uri x # seen) xs))" by simp
      then have "uri y \<noteq> uri x" unfolding dedupe_uris by simp
      with Cons.IH [OF 2] show ?thesis by auto
    qed
  qed
qed

lemma dedupe_empty: "(dedupe_first_seen [] xs = []) = (xs = [])"
  by (cases xs) auto

lemma str_or_default_nonempty: "d \<noteq> [] \<Longrightarrow> str_or_default a d \<noteq> []"
  by (simp add: str_or_default_def split: option.splits)

lemma sendChatMessage_Inr:
  assumes "fst (sendChatMessage env txt model history persona) = Inr r"
  shows "\<exists>ai response.
           truthy_str (str_or (API_KEY env) (GEMINI_API_KEY env)) \<and>
           GoogleGenAI env (str_or (API_KEY env) (GEMINI_API_KEY env)) = Inr ai \<and>
           generateContent env ai (chatRequest txt model history persona) = Inr response \<and>
           r = chatResult response"
  using assms
  by (auto simp: sendChatMessage_def Let_def split: if_splits sum.splits)

lemma sendChatMessage_ok:
  assumes "truthy_str (str_or (API_KEY env) (GEMINI_API_KEY env))"
    and "GoogleGenAI env (str_or (API_KEY env) (GEMINI_API_KEY env)) = Inr ai"
    and "generateContent env ai (chatRequest txt model history persona) = Inr response"
  shows "sendChatMessage env txt model history persona =
           (Inr (chatResult response), [chatRequest txt model history persona])"
  using assms by (simp add: sendChatMessage_def Let_def)


lemma listed_chatResult: "listed (chatResult response) = uniqueSources (sourcesOf response)"
  by (simp add: listed_def chatResult_def Let_def)

text \<open>
  Claim C4. When a credential resolves, the client is constructed and the backend
  replies, \<open>sendChatMessage\<close> resolves: its text is the reply's text, or the sentinel
  \<open>NO_RESPONSE_RECEIVED\<close> when that text is missing or empty, and so never empty; the
  sources it lists are the flattened citation entries deduplicated by uri as the
  specification words it (first seen wins): no uri twice, in the original order, every
  uri kept, each entry the first of its uri. The sources A/u1, B/u1, C/u2 give
  exactly A/u1, C/u2.
\<close>

theorem sendChatMessage_success_result:
  assumes key: "truthy_str (str_or (API_KEY env) (GEMINI_API_KEY env))"
    and ctor: "GoogleGenAI env (str_or (API_KEY env) (GEMINI_API_KEY env)) = Inr ai"
    and reply: "generateContent env ai (chatRequest txt model history persona) = Inr response"
  shows "\<exists>r. fst (sendChatMessage env txt model history persona) = Inr r \<and>
           res_text r = (case resp_text response of
                           None \<Rightarrow> ''NO_RESPONSE_RECEIVED''
                         | Some t \<Rightarrow> if t = [] then ''NO_RESPONSE_RECEIVED'' else t) \<and>
           res_text r \<noteq> [] \<and>
           listed r = dedupe_first_seen [] (sourcesOf response) \<and>
           distinct (map uri (listed r)) \<and>
           subseq (listed r) (sourcesOf response) \<and>
           set (map uri (listed r)) = set (map uri (sourcesOf response)) \<and>
           (\<forall>y\<in>set (listed r). find (\<lambda>t. uri t = uri y) (sourcesOf response) = Some y) \<and>
           (sourcesOf response =
              [\<lparr>title = ''A'', uri = ''u1''\<rparr>, \<lparr>title = ''B'', uri = ''u1''\<rparr>, \<lparr>title = ''C'', uri = ''u2''\<rparr>]
            \<longrightarrow> res_sources r = Some [\<lparr>title = ''A'', uri = ''u1''\<rparr>, \<lparr>title = ''C'', uri = ''u2''\<rparr>])"
proof -
  let ?r = "chatResult response"
  let ?srcs = "sourcesOf response"
  have run: "fst (sendChatMessage env txt model history persona) = Inr ?r"
    by (simp add: sendChatMessage_ok [OF key ctor reply])
  have tx: "res_text ?r = (case resp_text response of
                           None \<Rightarrow> ''NO_RESPONSE_RECEIVED''
                         | Some t \<Rightarrow> if t = [] then ''NO_RESPONSE_RECEIVED'' else t)"
    by (simp add: chatResult_def Let_def str_or_default_def split: option.splits)
  have nonempty: "res_text ?r \<noteq> []"
    by (simp add: chatResult_def Let_def str_or_default_nonempty)
  have l: "listed ?r = dedupe_first_seen [] ?srcs"
    by (simp add: listed_chatResult uniqueSources_dedupe)
  have d: "distinct (map uri (listed ?r))"
    unfolding l by (rule dedupe_distinct)
  have s: "subseq (listed ?r) ?srcs"
    unfolding l by (rule dedupe_subseq)
  have u: "set (map uri (listed ?r)) = set (map uri ?srcs)"
    unfolding l dedupe_uris by simp
  have f: "\<forall>y\<in>set (listed ?r). find (\<lambda>t. uri t = uri y) ?srcs = Some y"
    unfolding l by (blast intro: dedupe_first)
  have ex: "?srcs = [\<lparr>title = ''A'', uri = ''u1''\<rparr>, \<lparr>title = ''B'', uri = ''u1''\<rparr>, \<lparr>title = ''C'', uri = ''u2''\<rparr>]
            \<longrightarrow> res_sources ?r = Some [\<lparr>title = ''A'', uri = ''u1''\<rparr>, \<lparr>title = ''C'', uri = ''u2''\<rparr>]"
    by (simp add: chatResult_def Let_def uniqueSources_dedupe)
  from run tx nonempty l d s u f ex show ?thesis by blast
qed

text \<open>
  The example of the specification through the whole call: an empty reply text and the
  three citations.
\<close>

theorem sendChatMessage_success_result_witness:
  "truthy_str (str_or (API_KEY (sample_environment (Some ''k'') None
       (Inr (grounded_reply (Some []) [web_chunk ''A'' ''u1'', web_chunk ''B'' ''u1'', web_chunk ''C'' ''u2''])) (Inl (Error ''x''))))
     (GEMINI_API_KEY (sample_environment (Some ''k'') None
       (Inr (grounded_reply (Some []) [web_chunk ''A'' ''u1'', web_chunk ''B'' ''u1'', web_chunk ''C'' ''u2''])) (Inl (Error ''x'')))))
   \<and> fst (sendChatMessage (sample_environment (Some ''k'') None
       (Inr (grounded_reply (Some []) [web_chunk ''A'' ''u1'', web_chunk ''B'' ''u1'', web_chunk ''C'' ''u2''])) (Inl (Error ''x'')))
       ''hello'' Gemini3Flash [] Zephyr)
     = Inr \<lparr>res_text = ''NO_RESPONSE_RECEIVED'',
            res_sources = Some [\<lparr>title = ''A'', uri = ''u1''\<rparr>, \<lparr>title = ''C'', uri = ''u2''\<rparr>]\<rparr>"
proof -
  let ?reply = "grounded_reply (Some []) [web_chunk ''A'' ''u1'', web_chunk ''B'' ''u1'', web_chunk ''C'' ''u2'']"
  let ?env = "sample_environment (Some ''k'') None (Inr ?reply) (Inl (Error ''x''))"
  have key: "truthy_str (str_or (API_KEY ?env) (GEMINI_API_KEY ?env))"
    by (simp add: sample_environment_def truthy_str_def str_or_def)
  have ctor: "GoogleGenAI ?env (str_or (API_KEY ?env) (GEMINI_API_KEY ?env)) = Inr (Some ''k'')"
    by (simp add: sample_environment_def truthy_str_def str_or_def)
  have reply: "generateContent ?env (Some ''k'') (chatRequest ''hello'' Gemini3Flash [] Zephyr) = Inr ?reply"
    by (simp add: sample_environment_def)
  have srcs: "sourcesOf ?reply =
      [\<lparr>title = ''A'', uri = ''u1''\<rparr>, \<lparr>title = ''B'', uri = ''u1''\<rparr>, \<lparr>title = ''C'', uri = ''u2''\<rparr>]"
    by (simp add: sourcesOf_def groundingChunksOf_def first_of_def grounded_reply_def web_chunk_def
        str_or_default_def)
  have tx: "resp_text ?reply = Some []"
    by (simp add: grounded_reply_def)
  from sendChatMessage_success_result [OF key ctor reply]
  obtain r where r: "fst (sendChatMessage ?env ''hello'' Gemini3Flash [] Zephyr) = Inr r"
    and t: "res_text r = ''NO_RESPONSE_RECEIVED''"
    and s: "res_sources r = Some [\<lparr>title = ''A'', uri = ''u1''\<rparr>, \<lparr>title = ''C'', uri = ''u2''\<rparr>]"
    unfolding srcs tx by auto
  from t s have "r = \<lparr>res_text = ''NO_RESPONSE_RECEIVED'',
            res_sources = Some [\<lparr>title = ''A'', uri = ''u1''\<rparr>, \<lparr>title = ''C'', uri = ''u2''\<rparr>]\<rparr>"
    by simp
  with r key show ?thesis by simp
qed

text \<open>
  Claim C10. The \<open>sources\<close> field of a result of \<open>sendChatMessage\<close> is never an empty
  list: it is absent whenever the deduplicated list is empty, in particular when the
  reply has no grounding chunks, and the deduplicated list otherwise.
\<close>

theorem sendChatMessage_sources_never_empty_list:
  assumes "fst (sendChatMessage env txt model history persona) = Inr r"
  shows "res_sources r \<noteq> Some [] \<and>
         (\<exists>ai response.
            generateContent env ai (chatRequest txt model history persona) = Inr response \<and>
            res_sources r =
              (if uniqueSources (sourcesOf response) = [] then None
               else Some (uniqueSources (sourcesOf response))) \<and>
            (groundingChunksOf response = None \<longrightarrow> res_sources r = None))"
proof -
  from sendChatMessage_Inr [OF assms] obtain ai response
    where reply: "generateContent env ai (chatRequest txt model history persona) = Inr response"
      and r: "r = chatResult response"
    by blast
  have field: "res_sources r =
      (if uniqueSources (sourcesOf response) = [] then None else Some (uniqueSources (sourcesOf response)))"
    by (simp add: r chatResult_def Let_def)
  then have nonempty: "res_sources r \<noteq> Some []" by simp
  have absent: "groundingChunksOf response = None \<longrightarrow> res_sources r = None"
    by (simp add: field sourcesOf_def uniqueSources_dedupe)
  show ?thesis
  proof (intro conjI exI)
    show "res_sources r \<noteq> Some []" by (rule nonempty)
    show "generateContent env ai (chatRequest txt model history persona) = Inr response"
      by (rule reply)
    show "res_sources r =
      (if uniqueSources (sourcesOf response) = [] then None else Some (uniqueSources (sourcesOf response)))"
      by (rule field)
    show "groundingChunksOf response = None \<longrightarrow> res_sources r = None" by (rule absent)
  qed
qed

text \<open>A reply without candidates: the result has no \<open>sources\<close> field.\<close>

theorem sendChatMessage_sources_never_empty_list_witness:
  "fst (sendChatMessage (sample_environment None (Some ''k'') (Inr \<lparr>resp_text = Some ''hi'', candidates = None\<rparr>) (Inl (Error ''x'')))
          ''hello'' Gemini3Pro [] Kore)
     = Inr \<lparr>res_text = ''hi'', res_sources = None\<rparr>
   \<and> res_sources \<lparr>res_text = ''hi'', res_sources = None\<rparr> \<noteq> Some []"
proof -
  let ?env = "sample_environment None (Some ''k'') (Inr \<lparr>resp_text = Some ''hi'', candidates = None\<rparr>) (Inl (Error ''x''))"
  let ?r = "\<lparr>res_text = ''hi'', res_sources = None\<rparr>"
  have run: "fst (sendChatMessage ?env ''hello'' Gemini3Pro [] Kore) = Inr ?r"
    by (simp add: sendChatMessage_def sample_environment_def truthy_str_def str_or_def Let_def
        chatResult_def str_or_default_def sourcesOf_def groundingChunksOf_def first_of_def
        uniqueSources_def js_filter_def)
  from sendChatMessage_sources_never_empty_list [OF run]
  have "res_sources ?r \<noteq> Some []" by blast
  with run show ?thesis by blast
qed

lemma conversationContents_nth:
  "i < length history \<Longrightarrow> conversationContents txt history ! i = toContent (history ! i)"
  by (simp add: conversationContents_def nth_append)

text \<open>
  Claim C9. The turns sent to the backend are the history in its order, a message of
  role \<open>USER\<close> as \<open>user\<close> and every other message as \<open>model\<close> (so a \<open>SYSTEM\<close> message
  too), each with its content, followed by the new text as the last \<open>user\<close> turn; this
  is the \<open>contents\<close> of the one request \<open>sendChatMessage\<close> sends.
\<close>

theorem conversationContents_roles:
  "length (conversationContents txt history) = length history + 1 \<and>
   (\<forall>i<length history.
      content_role (conversationContents txt history ! i)
        = Some (if role (history ! i) = USER then ''user'' else ''model'') \<and>
      parts (conversationContents txt history ! i) = [content (history ! i)] \<and>
      (role (history ! i) = SYSTEM \<longrightarrow>
         content_role (conversationContents txt history ! i) = Some ''model'')) \<and>
   conversationContents txt history ! length history = \<lparr>content_role = Some ''user'', parts = [txt]\<rparr> \<and>
   last (conversationContents txt history) = \<lparr>content_role = Some ''user'', parts = [txt]\<rparr> \<and>
   req_contents (chatRequest txt model history persona) = conversationContents txt history \<and>
   (truthy_str (str_or (API_KEY env) (GEMINI_API_KEY env)) \<and>
    GoogleGenAI env (str_or (API_KEY env) (GEMINI_API_KEY env)) = Inr ai
      \<longrightarrow> snd (sendChatMessage env txt model history persona) = [chatRequest txt model history persona])"
proof -
  have len: "length (conversationContents txt history) = length history + 1"
    by (simp add: conversationContents_def)
  have each: "\<forall>i<length history.
      content_role (conversationContents txt history ! i)
        = Some (if role (history ! i) = USER then ''user'' else ''model'') \<and>
      parts (conversationContents txt history ! i) = [content (history ! i)] \<and>
      (role (history ! i) = SYSTEM \<longrightarrow>
         content_role (conversationContents txt history ! i) = Some ''model'')"
    by (simp add: conversationContents_nth toContent_def)
  have new: "conversationContents txt history ! length history = \<lparr>content_role = Some ''user'', parts = [txt]\<rparr>"
    by (simp add: conversationContents_def nth_append)
  have lst: "last (conversationContents txt history) = \<lparr>content_role = Some ''user'', parts = [txt]\<rparr>"
    by (simp add: conversationContents_def)
  have req: "req_contents (chatRequest txt model history persona) = conversationContents txt history"
    by (simp add: chatRequest_def)
  have sent: "truthy_str (str_or (API_KEY env) (GEMINI_API_KEY env)) \<and>
    GoogleGenAI env (str_or (API_KEY env) (GEMINI_API_KEY env)) = Inr ai
      \<longrightarrow> snd (sendChatMessage env txt model history persona) = [chatRequest txt model history persona]"
    by (auto simp: sendChatMessage_def Let_def split: sum.splits)
  from len each new lst req sent show ?thesis by blast
qed

text \<open>A history of a user, an assistant and a system message.\<close>

theorem conversationContents_roles_witness:
  "conversationContents ''now''
     [sample_message USER ''a'', sample_message ASSISTANT ''b'', sample_message SYSTEM ''c'']
   = [\<lparr>content_role = Some ''user'', parts = [''a'']\<rparr>,
      \<lparr>content_role = Some ''model'', parts = [''b'']\<rparr>,
      \<lparr>content_role = Some ''model'', parts = [''c'']\<rparr>,
      \<lparr>content_role = Some ''user'', parts = [''now'']\<rparr>]
   \<and> role (sample_message SYSTEM ''c'') = SYSTEM
   \<and> content_role (conversationContents ''now''
        [sample_message USER ''a'', sample_message ASSISTANT ''b'', sample_message SYSTEM ''c''] ! 2)
      = Some ''model''
   \<and> snd (sendChatMessage (sample_environment (Some ''k'') None (Inl (Error ''down'')) (Inl (Error ''x'')))
        ''now'' Gemini3Flash
        [sample_message USER ''a'', sample_message ASSISTANT ''b'', sample_message SYSTEM ''c''] Zephyr)
      = [chatRequest ''now'' Gemini3Flash
          [sample_message USER ''a'', sample_message ASSISTANT ''b'', sample_message SYSTEM ''c''] Zephyr]"
proof -
  let ?h = "[sample_message USER ''a'', sample_message ASSISTANT ''b'', sample_message SYSTEM ''c'']"
  let ?env = "sample_environment (Some ''k'') None (Inl (Error ''down'')) (Inl (Error ''x''))"
  note inst = conversationContents_roles [of "''now''" ?h Gemini3Flash Zephyr ?env "Some ''k''"]
  have sys: "role (?h ! 2) = SYSTEM" by (simp add: sample_message_def)
  have two: "(2::nat) < length ?h" by simp
  from inst two sys have model: "content_role (conversationContents ''now'' ?h ! 2) = Some ''model''"
    by blast
  have key: "truthy_str (str_or (API_KEY ?env) (GEMINI_API_KEY ?env)) \<and>
    GoogleGenAI ?env (str_or (API_KEY ?env) (GEMINI_API_KEY ?env)) = Inr (Some ''k'')"
    by (simp add: sample_environment_def truthy_str_def str_or_def)
  from inst key have sent: "snd (sendChatMessage ?env ''now'' Gemini3Flash ?h Zephyr)
      = [chatRequest ''now'' Gemini3Flash ?h Zephyr]"
    by blast
  have whole: "conversationContents ''now'' ?h
   = [\<lparr>content_role = Some ''user'', parts = [''a'']\<rparr>,
      \<lparr>content_role = Some ''model'', parts = [''b'']\<rparr>,
      \<lparr>content_role = Some ''model'', parts = [''c'']\<rparr>,
      \<lparr>content_role = Some ''user'', parts = [''now'']\<rparr>]"
    by (simp add: conversationContents_def toContent_def sample_message_def)
  from whole model sent show ?thesis by (simp add: sample_message_def)
qed

section \<open>Scheduling inbound audio\<close>

lemma enqueueChunk_ok:
  assumes "decodeAudioData env d = Inr b"
  shows "enqueueChunk env now d st =
    (None,
     st\<lparr>nodesCreated := nodesCreated st + 1,
        audioCalls := audioCalls st @ [SourceStart (nodesCreated st) (max (nextStartTime st) now)],
        nextStartTime := max (nextStartTime st) now + duration b / speed (currentAudioSettings st),
        activeSources := activeSources st @
          [\<lparr>node_id = nodesCreated st, buffer = b, playbackRate = speed (currentAudioSettings st),
            startWhen = max (nextStartTime st) now\<rparr>]\<rparr>)"
  using assms by (simp add: enqueueChunk_def Let_def)

lemma audioStage_ok:
  assumes "messageAudio m = Some d" "d \<noteq> []" "audioContext st \<noteq> None" "outputNode st \<noteq> None"
    and "decodeAudioData env d = Inr b"
  shows "audioStage env now m st =
    (None,
     st\<lparr>nodesCreated := nodesCreated st + 1,
        audioCalls := audioCalls st @ [SourceStart (nodesCreated st) (max (nextStartTime st) now)],
        nextStartTime := max (nextStartTime st) now + duration b / speed (currentAudioSettings st),
        activeSources := activeSources st @
          [\<lparr>node_id = nodesCreated st, buffer = b, playbackRate = speed (currentAudioSettings st),
            startWhen = max (nextStartTime st) now\<rparr>]\<rparr>)"
  using assms by (simp add: audioStage_def enqueueChunk_ok)

lemma audioRun_timetable:
  assumes "audioContext st \<noteq> None" "outputNode st \<noteq> None"
    and "list_all2 (\<lambda>m b. decodes env (snd m) b) ms bufs"
  shows "\<exists>st'. audioRun env ms st = (None, st') \<and>
           activeSources st' = activeSources st @
             timetable (speed (currentAudioSettings st)) (nodesCreated st) (nextStartTime st)
               (zip (map fst ms) bufs) \<and>
           nextStartTime st' = cursorAfter (speed (currentAudioSettings st)) (nextStartTime st) (zip (map fst ms) bufs) \<and>
           currentAudioSettings st' = currentAudioSettings st"
  using assms
proof (induction ms arbitrary: st bufs)
  case Nil
  then show ?case by simp
next
  case (Cons m ms)
  from Cons.prems(3) obtain b bs where bufs: "bufs = b # bs"
    and dec: "decodes env (snd m) b"
    and rest: "list_all2 (\<lambda>m b. decodes env (snd m) b) ms bs"
    by (auto simp: list_all2_Cons1)
  from dec obtain d where d: "messageAudio (snd m) = Some d" "d \<noteq> []" "decodeAudioData env d = Inr b"
    by (auto simp: decodes_def)
  let ?st1 = "st\<lparr>nodesCreated := nodesCreated st + 1,
        audioCalls := audioCalls st @ [SourceStart (nodesCreated st) (max (nextStartTime st) (fst m))],
        nextStartTime := max (nextStartTime st) (fst m) + duration b / speed (currentAudioSettings st),
        activeSources := activeSources st @
          [\<lparr>node_id = nodesCreated st, buffer = b, playbackRate = speed (currentAudioSettings st),
            startWhen = max (nextStartTime st) (fst m)\<rparr>]\<rparr>"
  have stage: "audioStage env (fst m) (snd m) st = (None, ?st1)"
    by (rule audioStage_ok [OF d(1) d(2) Cons.prems(1) Cons.prems(2) d(3)])
  have c1: "audioContext ?st1 \<noteq> None" "outputNode ?st1 \<noteq> None"
    using Cons.prems(1,2) by simp_all
  from Cons.IH [OF c1 rest] obtain st' where
    run: "audioRun env ms ?st1 = (None, st')"
    and act: "activeSources st' = activeSources ?st1 @
             timetable (speed (currentAudioSettings ?st1)) (nodesCreated ?st1) (nextStartTime ?st1)
               (zip (map fst ms) bs)"
    and cur: "nextStartTime st' = cursorAfter (speed (currentAudioSettings ?st1)) (nextStartTime ?st1) (zip (map fst ms) bs)"
    and set: "currentAudioSettings st' = currentAudioSettings ?st1"
    by blast
  have "audioRun env (m # ms) st = (None, st')"
    using run by (simp add: stage)
  moreover have "activeSources st' = activeSources st @
             timetable (speed (currentAudioSettings st)) (nodesCreated st) (nextStartTime st)
               (zip (map fst (m # ms)) bufs)"
    using act by (simp add: bufs)
  moreover have "nextStartTime st' = cursorAfter (speed (currentAudioSettings st)) (nextStartTime st) (zip (map fst (m # ms)) bufs)"
    using cur by (simp add: bufs)
  moreover have "currentAudioSettings st' = currentAudioSettings st"
    using set by simp
  ultimately show ?case by blast
qed

lemma timetable_length: "length (timetable s i c xs) = length xs"
  by (induction xs arbitrary: i c) auto

lemma timetable_first: "xs \<noteq> [] \<Longrightarrow> startWhen (timetable s i c xs ! 0) = max c (fst (xs ! 0))"
  by (cases xs) auto

lemma timetable_next:
  "Suc k < length xs \<Longrightarrow>
   startWhen (timetable s i c xs ! Suc k)
     = max (startWhen (timetable s i c xs ! k) + duration (snd (xs ! k)) / s) (fst (xs ! Suc k))"
proof (induction xs arbitrary: i c k)
  case Nil
  then show ?case by simp
next
  case (Cons x xs)
  show ?case
  proof (cases k)
    case 0
    with Cons.prems obtain y ys where "xs = y # ys" by (cases xs) auto
    with 0 show ?thesis by simp
  next
    case (Suc j)
    with Cons.prems have "Suc j < length xs" by simp
    from Cons.IH [OF this] Suc show ?thesis by simp
  qed
qed

lemma timetable_nodes:
  "k < length xs \<Longrightarrow>
   node_id (timetable s i c xs ! k) = i + k \<and> buffer (timetable s i c xs ! k) = snd (xs ! k) \<and>
   playbackRate (timetable s i c xs ! k) = s"
proof (induction xs arbitrary: i c k)
  case Nil
  then show ?case by simp
next
  case (Cons x xs)
  show ?case
  proof (cases k)
    case 0
    then show ?thesis by simp
  next
    case (Suc j)
    with Cons.prems have "j < length xs" by simp
    from Cons.IH [OF this] Suc show ?thesis by simp
  qed
qed


lemma cursorAfter_last:
  "xs \<noteq> [] \<Longrightarrow>
   cursorAfter s c xs
     = startWhen (timetable s i c xs ! (length xs - 1)) + duration (snd (xs ! (length xs - 1))) / s"
proof (induction xs arbitrary: i c)
  case Nil
  then show ?case by simp
next
  case (Cons x xs)
  show ?case
  proof (cases "xs = []")
    case True
    then show ?thesis by simp
  next
    case False
    then have "0 < length xs" by simp
    with Cons.IH [OF False] show ?thesis by (simp add: nth_Cons')
  qed
qed

lemma chain_sum:
  fixes f g :: "nat \<Rightarrow> real"
  assumes "\<forall>k. Suc k < n \<longrightarrow> f (Suc k) = f k + g k"
  shows "k < n \<Longrightarrow> f k = f 0 + (\<Sum>j<k. g j)"
proof (induction k)
  case 0
  show ?case by simp
next
  case (Suc k)
  then have "f k = f 0 + (\<Sum>j<k. g j)" by simp
  moreover from assms Suc.prems have "f (Suc k) = f k + g k" by blast
  ultimately show ?case by simp
qed

text \<open>
  Claim C1. A run of inbound audio chunks with an output context, a positive speed \<open>s\<close>
  that does not change, and chunks that decode to the buffers \<open>bufs\<close>: every chunk is
  scheduled, as a new source at rate \<open>s\<close>. The first starts at the larger of the cursor
  and the clock. Chunk \<open>k + 1\<close> starts at the larger of (start of chunk \<open>k\<close> plus
  \<open>d\<^sub>k / s\<close>), which is the cursor after chunk \<open>k\<close>, and the clock at its arrival: never
  earlier than the end of chunk \<open>k\<close>, and exactly then when it arrives by that time. The
  cursor ends at the end of the last chunk. When all chunks arrive in time, chunk \<open>k\<close>
  starts at the first start plus the sum of the earlier \<open>d\<^sub>j / s\<close>. Time is real-valued;
  at speed 0 JavaScript's quotient is no real number, hence the positive speed.
\<close>

theorem audio_chunks_back_to_back:
  assumes ctx: "audioContext st \<noteq> None" "outputNode st \<noteq> None"
    and speed: "0 < speed (currentAudioSettings st)"
    and dec: "list_all2 (\<lambda>m b. decodes env (snd m) b) ms bufs"
  shows "\<exists>st' news.
     audioRun env ms st = (None, st') \<and>
     activeSources st' = activeSources st @ news \<and>
     length news = length ms \<and>
     (\<forall>k<length ms. buffer (news ! k) = bufs ! k \<and>
                     playbackRate (news ! k) = speed (currentAudioSettings st)) \<and>
     (ms \<noteq> [] \<longrightarrow> startWhen (news ! 0) = max (nextStartTime st) (fst (ms ! 0))) \<and>
     (\<forall>k. Suc k < length ms \<longrightarrow>
        startWhen (news ! Suc k)
          = max (startWhen (news ! k) + duration (bufs ! k) / speed (currentAudioSettings st))
                (fst (ms ! Suc k)) \<and>
        startWhen (news ! k) + duration (bufs ! k) / speed (currentAudioSettings st)
          \<le> startWhen (news ! Suc k) \<and>
        (fst (ms ! Suc k) \<le> startWhen (news ! k) + duration (bufs ! k) / speed (currentAudioSettings st)
           \<longrightarrow> startWhen (news ! Suc k)
                 = startWhen (news ! k) + duration (bufs ! k) / speed (currentAudioSettings st))) \<and>
     (ms \<noteq> [] \<longrightarrow>
        nextStartTime st'
          = startWhen (news ! (length ms - 1))
              + duration (bufs ! (length ms - 1)) / speed (currentAudioSettings st)) \<and>
     ((\<forall>k. Suc k < length ms \<longrightarrow>
          fst (ms ! Suc k) \<le> startWhen (news ! k) + duration (bufs ! k) / speed (currentAudioSettings st))
        \<longrightarrow> (\<forall>k<length ms.
               startWhen (news ! k)
                 = max (nextStartTime st) (fst (ms ! 0))
                     + (\<Sum>j<k. duration (bufs ! j) / speed (currentAudioSettings st))))"
proof -
  let ?s = "speed (currentAudioSettings st)"
  let ?xs = "zip (map fst ms) bufs"
  let ?news = "timetable ?s (nodesCreated st) (nextStartTime st) ?xs"
  from dec have len: "length bufs = length ms"
    by (simp add: list_all2_lengthD)
  then have lxs: "length ?xs = length ms" by simp
  have nth: "\<And>k. k < length ms \<Longrightarrow> ?xs ! k = (fst (ms ! k), bufs ! k)"
    using len by simp
  from audioRun_timetable [OF ctx dec] obtain st' where
    run: "audioRun env ms st = (None, st')"
    and act: "activeSources st' = activeSources st @ ?news"
    and cur: "nextStartTime st' = cursorAfter ?s (nextStartTime st) ?xs"
    by blast
  have l: "length ?news = length ms"
    by (simp add: timetable_length len)
  have nodes: "\<forall>k<length ms. buffer (?news ! k) = bufs ! k \<and> playbackRate (?news ! k) = ?s"
  proof (intro allI impI)
    fix k assume k: "k < length ms"
    then have "k < length ?xs" using lxs by simp
    from timetable_nodes [OF this, of ?s "nodesCreated st" "nextStartTime st"] nth [OF k]
    show "buffer (?news ! k) = bufs ! k \<and> playbackRate (?news ! k) = ?s" by simp
  qed
  have first: "ms \<noteq> [] \<longrightarrow> startWhen (?news ! 0) = max (nextStartTime st) (fst (ms ! 0))"
  proof
    assume ne: "ms \<noteq> []"
    then have "?xs \<noteq> []" using lxs by (metis length_0_conv)
    from timetable_first [OF this, of ?s "nodesCreated st" "nextStartTime st"] nth [of 0] ne
    show "startWhen (?news ! 0) = max (nextStartTime st) (fst (ms ! 0))" by simp
  qed
  have step: "\<And>k. Suc k < length ms \<Longrightarrow>
        startWhen (?news ! Suc k) = max (startWhen (?news ! k) + duration (bufs ! k) / ?s) (fst (ms ! Suc k))"
  proof -
    fix k assume k: "Suc k < length ms"
    then have "Suc k < length ?xs" using lxs by simp
    from timetable_next [OF this, of ?s "nodesCreated st" "nextStartTime st"]
      nth [of k] nth [OF k] k
    show "startWhen (?news ! Suc k) = max (startWhen (?news ! k) + duration (bufs ! k) / ?s) (fst (ms ! Suc k))"
      by simp
  qed
  have chain: "\<forall>k. Suc k < length ms \<longrightarrow>
        startWhen (?news ! Suc k) = max (startWhen (?news ! k) + duration (bufs ! k) / ?s) (fst (ms ! Suc k)) \<and>
        startWhen (?news ! k) + duration (bufs ! k) / ?s \<le> startWhen (?news ! Suc k) \<and>
        (fst (ms ! Suc k) \<le> startWhen (?news ! k) + duration (bufs ! k) / ?s
           \<longrightarrow> startWhen (?news ! Suc k) = startWhen (?news ! k) + duration (bufs ! k) / ?s)"
    using step by (simp add: max_def)
  have final: "ms \<noteq> [] \<longrightarrow>
        nextStartTime st' = startWhen (?news ! (length ms - 1)) + duration (bufs ! (length ms - 1)) / ?s"
  proof
    assume ne: "ms \<noteq> []"
    then have x: "?xs \<noteq> []" using lxs by (metis length_0_conv)
    from ne have "length ms - 1 < length ms" by (cases ms) auto
    from nth [OF this] cursorAfter_last [OF x, of ?s "nextStartTime st" "nodesCreated st"] cur lxs
    show "nextStartTime st' = startWhen (?news ! (length ms - 1)) + duration (bufs ! (length ms - 1)) / ?s"
      by simp
  qed
  have prompt: "(\<forall>k. Suc k < length ms \<longrightarrow>
          fst (ms ! Suc k) \<le> startWhen (?news ! k) + duration (bufs ! k) / ?s)
        \<longrightarrow> (\<forall>k<length ms.
               startWhen (?news ! k)
                 = max (nextStartTime st) (fst (ms ! 0)) + (\<Sum>j<k. duration (bufs ! j) / ?s))"
  proof (intro impI allI)
    fix k
    assume p: "\<forall>k. Suc k < length ms \<longrightarrow>
          fst (ms ! Suc k) \<le> startWhen (?news ! k) + duration (bufs ! k) / ?s"
      and k: "k < length ms"
    from p chain have eq: "\<forall>k. Suc k < length ms \<longrightarrow>
        startWhen (?news ! Suc k) = startWhen (?news ! k) + duration (bufs ! k) / ?s"
      by blast
    from k have "ms \<noteq> []" by auto
    with first have f0: "startWhen (?news ! 0) = max (nextStartTime st) (fst (ms ! 0))" by blast
    from chain_sum [of "length ms" "\<lambda>k. startWhen (?news ! k)" "\<lambda>k. duration (bufs ! k) / ?s", OF eq k] f0
    show "startWhen (?news ! k)
                 = max (nextStartTime st) (fst (ms ! 0)) + (\<Sum>j<k. duration (bufs ! j) / ?s)"
      by simp
  qed
  from run act l nodes first chain final prompt show ?thesis
    by (intro exI [of _ st'] exI [of _ ?news] conjI)
qed

lemma sample_service_eq:
  "sample_service =
     \<lparr>audioContext = Some \<lparr>sampleRate = 24000\<rparr>,
      outputNode = Some \<lparr>gain_value = 1, gain_target = Some (1 / 2, 0, 1 / 10)\<rparr>,
      nextStartTime = 0, activeSources = [],
      currentAudioSettings = \<lparr>volume = 1 / 2, speed = 2\<rparr>,
      nodesCreated = 0, console = [], network = [], audioCalls = []\<rparr>"
  by (simp add: sample_service_def setAudioSettings_def ensureOutput_def gemini_def Let_def)

lemma messageAudio_sample: "messageAudio (server_message (Some (audio_part d)) i) = Some d"
  by (simp add: messageAudio_def server_message_def audio_part_def inlineAudioOf_def first_of_def)

text \<open>
  Three chunks of one second at double speed, arriving at 5, 5.2 and 7: the second
  follows the first without a gap, the third arrives late and starts on arrival.
\<close>

theorem audio_chunks_back_to_back_witness:
  "audioContext sample_service \<noteq> None \<and> outputNode sample_service \<noteq> None \<and>
   0 < speed (currentAudioSettings sample_service) \<and>
   list_all2 (\<lambda>m b. decodes (sample_environment (Some ''k'') None (Inl (Error ''x'')) (Inr \<lparr>duration = 1\<rparr>)) (snd m) b)
     [(5, server_message (Some (audio_part ''AAAA'')) None),
      (26 / 5, server_message (Some (audio_part ''BBBB'')) None),
      (7, server_message (Some (audio_part ''CCCC'')) None)]
     [\<lparr>duration = 1\<rparr>, \<lparr>duration = 1\<rparr>, \<lparr>duration = 1\<rparr>] \<and>
   fst (audioRun (sample_environment (Some ''k'') None (Inl (Error ''x'')) (Inr \<lparr>duration = 1\<rparr>))
     [(5, server_message (Some (audio_part ''AAAA'')) None),
      (26 / 5, server_message (Some (audio_part ''BBBB'')) None),
      (7, server_message (Some (audio_part ''CCCC'')) None)] sample_service) = None \<and>
   map startWhen (activeSources (snd (audioRun (sample_environment (Some ''k'') None (Inl (Error ''x'')) (Inr \<lparr>duration = 1\<rparr>))
     [(5, server_message (Some (audio_part ''AAAA'')) None),
      (26 / 5, server_message (Some (audio_part ''BBBB'')) None),
      (7, server_message (Some (audio_part ''CCCC'')) None)] sample_service))) = [5, 11 / 2, 7] \<and>
   nextStartTime (snd (audioRun (sample_environment (Some ''k'') None (Inl (Error ''x'')) (Inr \<lparr>duration = 1\<rparr>))
     [(5, server_message (Some (audio_part ''AAAA'')) None),
      (26 / 5, server_message (Some (audio_part ''BBBB'')) None),
      (7, server_message (Some (audio_part ''CCCC'')) None)] sample_service)) = 15 / 2"
proof -
  let ?env = "sample_environment (Some ''k'') None (Inl (Error ''x'')) (Inr \<lparr>duration = 1\<rparr>)"
  let ?ms = "[(5::real, server_message (Some (audio_part ''AAAA'')) None),
      (26 / 5, server_message (Some (audio_part ''BBBB'')) None),
      (7, server_message (Some (audio_part ''CCCC'')) None)]"
  let ?bufs = "[\<lparr>duration = 1\<rparr>, \<lparr>duration = 1\<rparr>, \<lparr>duration = (1::real)\<rparr>]"
  have c1: "audioContext sample_service \<noteq> None" by (simp add: sample_service_eq)
  have c2: "outputNode sample_service \<noteq> None" by (simp add: sample_service_eq)
  have sp: "0 < speed (currentAudioSettings sample_service)" by (simp add: sample_service_eq)
  have dec: "list_all2 (\<lambda>m b. decodes ?env (snd m) b) ?ms ?bufs"
    by (simp add: decodes_def messageAudio_sample sample_environment_def)
  from audio_chunks_back_to_back [OF c1 c2 sp dec] obtain st' news where
    run: "audioRun ?env ?ms sample_service = (None, st')"
    and act: "activeSources st' = activeSources sample_service @ news"
    and len: "length news = length ?ms"
    and first: "?ms \<noteq> [] \<longrightarrow> startWhen (news ! 0) = max (nextStartTime sample_service) (fst (?ms ! 0))"
    and chain: "\<forall>k. Suc k < length ?ms \<longrightarrow>
        startWhen (news ! Suc k)
          = max (startWhen (news ! k) + duration (?bufs ! k) / speed (currentAudioSettings sample_service))
                (fst (?ms ! Suc k))"
    and final: "?ms \<noteq> [] \<longrightarrow> nextStartTime st'
          = startWhen (news ! (length ?ms - 1))
              + duration (?bufs ! (length ?ms - 1)) / speed (currentAudioSettings sample_service)"
    by blast
  from len obtain a b c where news: "news = [a, b, c]"
    by (auto simp: length_Suc_conv)
  from first have s0: "startWhen a = 5" by (simp add: news sample_service_eq)
  from chain have "startWhen (news ! Suc 0)
          = max (startWhen (news ! 0) + duration (?bufs ! 0) / speed (currentAudioSettings sample_service))
                (fst (?ms ! Suc 0))" by simp
  with s0 have s1: "startWhen b = 11 / 2" by (simp add: news sample_service_eq)
  from chain have "startWhen (news ! Suc 1)
          = max (startWhen (news ! 1) + duration (?bufs ! 1) / speed (currentAudioSettings sample_service))
                (fst (?ms ! Suc 1))" by simp
  with s1 have s2: "startWhen c = 7" by (simp add: news sample_service_eq)
  from final s2 have fin: "nextStartTime st' = 15 / 2" by (simp add: news sample_service_eq)
  from act s0 s1 s2 have starts: "map startWhen (activeSources st') = [5, 11 / 2, 7]"
    by (simp add: news sample_service_eq)
  from c1 c2 sp dec run starts fin show ?thesis by simp
qed

section \<open>The cursor across the operations\<close>

lemma setAudioSettings_cursor: "nextStartTime (setAudioSettings now settings st) = nextStartTime st"
  by (simp add: setAudioSettings_def Let_def split: option.splits)

lemma sourceEnded_cursor: "nextStartTime (sourceEnded n st) = nextStartTime st"
  by (simp add: sourceEnded_def)

lemma ensureOutput_fields:
  "nextStartTime (ensureOutput st) = nextStartTime st"
  "activeSources (ensureOutput st) = activeSources st"
  "audioCalls (ensureOutput st) = audioCalls st"
  "nodesCreated (ensureOutput st) = nodesCreated st"
  "currentAudioSettings (ensureOutput st) = currentAudioSettings st"
  "console (ensureOutput st) = console st"
  "network (ensureOutput st) = network st"
  by (simp_all add: ensureOutput_def)

lemma connectLive_cursor: "nextStartTime (snd (connectLive env now p history st)) = nextStartTime st"
  by (simp add: connectLive_def Let_def ensureOutput_fields split: sum.splits option.splits)

lemma playOnce_shape:
  "\<exists>c x. nextStartTime (snd (playOnce env now d st)) = nextStartTime st \<and>
         audioCalls (snd (playOnce env now d st)) = audioCalls st @ c \<and>
         activeSources (snd (playOnce env now d st)) = activeSources st @ x \<and> length x \<le> 1"
  by (simp add: playOnce_def Let_def ensureOutput_fields split: sum.splits option.splits)

lemma speakText_start_shape:
  "nextStartTime (snd (speakText_start env tx p st)) = 0 \<and>
   activeSources (snd (speakText_start env tx p st)) = [] \<and>
   audioCalls (snd (speakText_start env tx p st))
     = audioCalls st @ map (\<lambda>s. SourceStop (node_id s)) (activeSources st) \<and>
   console (snd (speakText_start env tx p st)) = console st \<and>
   nodesCreated (snd (speakText_start env tx p st)) = nodesCreated st \<and>
   currentAudioSettings (snd (speakText_start env tx p st)) = currentAudioSettings st \<and>
   audioContext (snd (speakText_start env tx p st)) = audioContext st \<and>
   outputNode (snd (speakText_start env tx p st)) = outputNode st"
  by (simp add: speakText_start_def Let_def stopAudio_eq split: sum.splits option.splits)

lemma speakBody_shape:
  "\<exists>c x. nextStartTime (snd (speakBody env now pending st)) = nextStartTime st \<and>
         audioCalls (snd (speakBody env now pending st)) = audioCalls st @ c \<and>
         activeSources (snd (speakBody env now pending st)) = activeSources st @ x \<and> length x \<le> 1"
proof (cases pending)
  case (Refused e)
  then show ?thesis by (simp add: speakBody_def)
next
  case (Awaiting ai request)
  show ?thesis
  proof (cases "generateContent env ai request")
    case (Inl e)
    with Awaiting show ?thesis by (simp add: speakBody_def)
  next
    case (Inr response)
    show ?thesis
    proof (cases "speechAudio response")
      case None
      with Awaiting Inr show ?thesis by (simp add: speakBody_def)
    next
      case (Some d)
      from playOnce_shape [of env now d st] Awaiting Inr Some show ?thesis
        by (cases "d = []") (simp_all add: speakBody_def)
    qed
  qed
qed

lemma speakText_resume_shape:
  "\<exists>c x. nextStartTime (speakText_resume env now pending st) = nextStartTime st \<and>
         audioCalls (speakText_resume env now pending st) = audioCalls st @ c \<and>
         activeSources (speakText_resume env now pending st) = activeSources st @ x \<and> length x \<le> 1"
proof -
  obtain e st1 where r: "speakBody env now pending st = (e, st1)"
    by (cases "speakBody env now pending st")
  from speakBody_shape [of env now pending st] r obtain c x where
    "nextStartTime st1 = nextStartTime st" "audioCalls st1 = audioCalls st @ c"
    "activeSources st1 = activeSources st @ x" "length x \<le> 1"
    by auto
  with r show ?thesis
    by (cases e) (simp_all add: speakText_resume_def)
qed

lemma speakText_shape:
  "\<exists>c x. nextStartTime (snd (speakText env now tx p st)) = 0 \<and>
         audioCalls (snd (speakText env now tx p st))
           = audioCalls st @ map (\<lambda>s. SourceStop (node_id s)) (activeSources st) @ c \<and>
         activeSources (snd (speakText env now tx p st)) = x \<and> length x \<le> 1"
proof -
  obtain r st0 where start: "speakText_start env tx p st = (r, st0)"
    by (cases "speakText_start env tx p st")
  from speakText_start_shape [of env tx p st] start have
    s0: "nextStartTime st0 = 0" "activeSources st0 = []"
        "audioCalls st0 = audioCalls st @ map (\<lambda>s. SourceStop (node_id s)) (activeSources st)"
    by simp_all
  show ?thesis
  proof (cases r)
    case (Inl e)
    with start s0 show ?thesis by (simp add: speakText_def)
  next
    case (Inr pending)
    from speakText_resume_shape [of env now pending st0] obtain c x where
      "nextStartTime (speakText_resume env now pending st0) = nextStartTime st0"
      "audioCalls (speakText_resume env now pending st0) = audioCalls st0 @ c"
      "activeSources (speakText_resume env now pending st0) = activeSources st0 @ x" "length x \<le> 1"
      by blast
    with Inr start s0 show ?thesis by (simp add: speakText_def)
  qed
qed

lemma audioStage_shape:
  assumes speed: "0 < speed (currentAudioSettings st)"
    and dur: "\<forall>d b. decodeAudioData env d = Inr b \<longrightarrow> 0 \<le> duration b"
  shows "\<exists>c x. nextStartTime st \<le> nextStartTime (snd (audioStage env now m st)) \<and>
         audioCalls (snd (audioStage env now m st)) = audioCalls st @ c \<and>
         activeSources (snd (audioStage env now m st)) = activeSources st @ x"
proof -
  have q: "\<And>d b. decodeAudioData env d = Inr b \<Longrightarrow> 0 \<le> duration b / speed (currentAudioSettings st)"
    using speed dur by simp
  show ?thesis
    by (auto simp: audioStage_def enqueueChunk_def Let_def split: sum.splits option.splits dest: q)
qed


lemma onmessage_shape:
  assumes speed: "0 < speed (currentAudioSettings (fst sys))"
    and dur: "\<forall>d b. decodeAudioData env d = Inr b \<longrightarrow> 0 \<le> duration b"
  shows "(fst (onmessage env h now m sys) = None \<and> flag m interrupted \<longrightarrow>
            nextStartTime (fst (snd (onmessage env h now m sys))) = 0 \<and>
            (\<exists>c x. audioCalls (fst (snd (onmessage env h now m sys)))
                     = audioCalls (fst sys) @ c @
                       map (\<lambda>s. SourceStop (node_id s)) (activeSources (fst sys) @ x))) \<and>
         (\<not> (fst (onmessage env h now m sys) = None \<and> flag m interrupted) \<longrightarrow>
            nextStartTime (fst sys) \<le> nextStartTime (fst (snd (onmessage env h now m sys))))"
proof -
  obtain e1 ss1 where tool: "toolCallStage env h m (snd sys) = (e1, ss1)"
    by (cases "toolCallStage env h m (snd sys)")
  show ?thesis
  proof (cases e1)
    case (Some e)
    with tool show ?thesis by (simp add: onmessage_def)
  next
    case None
    obtain e2 st1 where audio: "audioStage env now m (fst sys) = (e2, st1)"
      by (cases "audioStage env now m (fst sys)")
    from audioStage_shape [OF speed dur, of now m] audio obtain c x where
      mono: "nextStartTime (fst sys) \<le> nextStartTime st1"
      and calls: "audioCalls st1 = audioCalls (fst sys) @ c"
      and act: "activeSources st1 = activeSources (fst sys) @ x"
      by auto
    show ?thesis
    proof (cases e2)
      case (Some e)
      with tool None audio mono show ?thesis by (simp add: onmessage_def)
    next
      case n2: None
      show ?thesis
      proof (cases "flag m interrupted")
        case False
        with tool None audio n2 mono show ?thesis by (simp add: onmessage_def Let_def)
      next
        case True
        have "audioCalls (stopAudio env st1)
                = audioCalls (fst sys) @ c @ map (\<lambda>s. SourceStop (node_id s)) (activeSources (fst sys) @ x)"
          by (simp add: stopAudio_eq calls act)
        then have "\<exists>c x. audioCalls (stopAudio env st1)
                = audioCalls (fst sys) @ c @ map (\<lambda>s. SourceStop (node_id s)) (activeSources (fst sys) @ x)"
          by blast
        moreover have "nextStartTime (stopAudio env st1) = 0" by (simp add: stopAudio_eq)
        ultimately show ?thesis
          using tool None audio n2 True by (simp add: onmessage_def Let_def)
      qed
    qed
  qed
qed

text \<open>
  Claim C2. With a positive speed and decoded buffers of non-negative duration, no
  operation of the service other than the halting ones (a manual halt, the stop of a
  session handle, the interrupt of one-shot speech, a message with the interruption
  signal) lowers the cursor. Whenever an operation lowers the cursor it is a halting
  one, the cursor is 0 afterwards, and \<open>stop\<close> was called during it on every source
  that was tracked before. A halting operation that completes leaves the cursor at 0.
\<close>

theorem cursor_monotone_except_reset:
  assumes speed: "0 < speed (currentAudioSettings (fst sys))"
    and dur: "\<forall>d b. decodeAudioData env d = Inr b \<longrightarrow> 0 \<le> duration b"
  shows "(\<not> interrupts op \<longrightarrow>
            nextStartTime (fst sys) \<le> nextStartTime (fst (step env h now op sys))) \<and>
         (nextStartTime (fst (step env h now op sys)) < nextStartTime (fst sys) \<longrightarrow>
            interrupts op \<and>
            nextStartTime (fst (step env h now op sys)) = 0 \<and>
            (\<forall>s\<in>set (activeSources (fst sys)).
               SourceStop (node_id s)
                 \<in> set (drop (length (audioCalls (fst sys))) (audioCalls (fst (step env h now op sys)))))) \<and>
         (interrupts op \<and> completes env h now op sys \<longrightarrow>
            nextStartTime (fst (step env h now op sys)) = 0)"
proof (cases op)
  case (OpSetAudioSettings settings)
  then show ?thesis by (simp add: setAudioSettings_cursor)
next
  case (OpSpeakText tx p)
  from speakText_shape [of env now tx p "fst sys"] obtain c x where
    z: "nextStartTime (snd (speakText env now tx p (fst sys))) = 0"
    and calls: "audioCalls (snd (speakText env now tx p (fst sys)))
           = audioCalls (fst sys) @ map (\<lambda>s. SourceStop (node_id s)) (activeSources (fst sys)) @ c"
    by blast
  from OpSpeakText z calls show ?thesis by auto
next
  case (OpSpeakStart tx p)
  from speakText_start_shape [of env tx p "fst sys"] have
    z: "nextStartTime (snd (speakText_start env tx p (fst sys))) = 0"
    and calls: "audioCalls (snd (speakText_start env tx p (fst sys)))
           = audioCalls (fst sys) @ map (\<lambda>s. SourceStop (node_id s)) (activeSources (fst sys))"
    by simp_all
  from OpSpeakStart z calls show ?thesis by auto
next
  case (OpSpeakResume pending)
  from speakText_resume_shape [of env now pending "fst sys"]
  have "nextStartTime (speakText_resume env now pending (fst sys)) = nextStartTime (fst sys)"
    by blast
  with OpSpeakResume show ?thesis by simp
next
  case (OpConnectLive p history)
  have "fst (step env h now (OpConnectLive p history) sys) = snd (connectLive env now p history (fst sys))"
    by (cases "connectLive env now p history (fst sys)")
       (auto split: connect_result.splits)
  with OpConnectLive show ?thesis by (simp add: connectLive_cursor)
next
  case OpSessionOpen
  then show ?thesis by simp
next
  case (OpMessage m)
  have st: "fst (step env h now (OpMessage m) sys) = fst (snd (onmessage env h now m sys))"
    by simp
  note shape = onmessage_shape [OF speed dur, of h now m]
  show ?thesis
  proof (cases "fst (onmessage env h now m sys) = None \<and> flag m interrupted")
    case True
    with shape obtain c x where
      z: "nextStartTime (fst (snd (onmessage env h now m sys))) = 0"
      and calls: "audioCalls (fst (snd (onmessage env h now m sys)))
                     = audioCalls (fst sys) @ c @
                       map (\<lambda>s. SourceStop (node_id s)) (activeSources (fst sys) @ x)"
      by blast
    from True z calls OpMessage show ?thesis unfolding st by auto
  next
    case False
    with shape have "nextStartTime (fst sys) \<le> nextStartTime (fst (snd (onmessage env h now m sys)))"
      by blast
    with False OpMessage show ?thesis unfolding st by auto
  qed
next
  case (OpSessionError e)
  then show ?thesis by simp
next
  case OpSessionClose
  then show ?thesis by simp
next
  case OpSessionStop
  then show ?thesis by (auto simp: sessionStop_def stopAudio_eq)
next
  case OpStopAudio
  then show ?thesis by (auto simp: stopAudio_eq)
next
  case (OpSourceEnded n)
  then show ?thesis by (simp add: sourceEnded_cursor)
qed


lemma sample_step_audio:
  "step (sample_environment (Some ''k'') None (Inl (Error ''x'')) (Inr \<lparr>duration = 1\<rparr>)) None 0
     (OpMessage (server_message (Some (audio_part ''AAAA'')) None)) (sample_service, newSession)
   = (sample_service
        \<lparr>nodesCreated := 1,
         audioCalls := [SourceStart 0 0],
         nextStartTime := 1 / 2,
         activeSources := [\<lparr>node_id = 0, buffer = \<lparr>duration = 1\<rparr>, playbackRate = 2, startWhen = 0\<rparr>]\<rparr>,
      newSession)"
  by (simp add: onmessage_def toolCallStage_def audioStage_def messageAudio_def inlineAudioOf_def
      first_of_def audio_part_def enqueueChunk_def transcriptionStage_def turnCompleteStage_def
      flag_def Let_def sample_service_eq server_message_def sample_environment_def)

text \<open>
  After one scheduled chunk the cursor is 0.5; a message with the interruption signal
  resets it and stops the source, a change of settings leaves it.
\<close>

theorem cursor_monotone_except_reset_witness:
  "nextStartTime (fst (step (sample_environment (Some ''k'') None (Inl (Error ''x'')) (Inr \<lparr>duration = 1\<rparr>)) None 0
     (OpMessage (server_message (Some (audio_part ''AAAA'')) None)) (sample_service, newSession))) = 1 / 2 \<and>
   interrupts (OpMessage (server_message None (Some True))) \<and>
   nextStartTime (fst (step (sample_environment (Some ''k'') None (Inl (Error ''x'')) (Inr \<lparr>duration = 1\<rparr>)) None 1
     (OpMessage (server_message None (Some True)))
     (step (sample_environment (Some ''k'') None (Inl (Error ''x'')) (Inr \<lparr>duration = 1\<rparr>)) None 0
       (OpMessage (server_message (Some (audio_part ''AAAA'')) None)) (sample_service, newSession)))) = 0 \<and>
   SourceStop 0 \<in> set (audioCalls (fst (step (sample_environment (Some ''k'') None (Inl (Error ''x'')) (Inr \<lparr>duration = 1\<rparr>)) None 1
     (OpMessage (server_message None (Some True)))
     (step (sample_environment (Some ''k'') None (Inl (Error ''x'')) (Inr \<lparr>duration = 1\<rparr>)) None 0
       (OpMessage (server_message (Some (audio_part ''AAAA'')) None)) (sample_service, newSession))))) \<and>
   \<not> interrupts (OpSetAudioSettings \<lparr>volume = 1, speed = 1\<rparr>) \<and>
   nextStartTime (fst (step (sample_environment (Some ''k'') None (Inl (Error ''x'')) (Inr \<lparr>duration = 1\<rparr>)) None 1
     (OpSetAudioSettings \<lparr>volume = 1, speed = 1\<rparr>)
     (step (sample_environment (Some ''k'') None (Inl (Error ''x'')) (Inr \<lparr>duration = 1\<rparr>)) None 0
       (OpMessage (server_message (Some (audio_part ''AAAA'')) None)) (sample_service, newSession)))) \<ge> 1 / 2"
proof -
  let ?env = "sample_environment (Some ''k'') None (Inl (Error ''x'')) (Inr \<lparr>duration = 1\<rparr>)"
  let ?sys1 = "step ?env None 0 (OpMessage (server_message (Some (audio_part ''AAAA'')) None)) (sample_service, newSession)"
  let ?intr = "OpMessage (server_message None (Some True))"
  let ?set = "OpSetAudioSettings \<lparr>volume = 1, speed = 1\<rparr>"
  have cur: "nextStartTime (fst ?sys1) = 1 / 2"
    unfolding sample_step_audio by simp
  have act: "activeSources (fst ?sys1) = [\<lparr>node_id = 0, buffer = \<lparr>duration = 1\<rparr>, playbackRate = 2, startWhen = 0\<rparr>]"
    unfolding sample_step_audio by simp
  have speed: "0 < speed (currentAudioSettings (fst ?sys1))"
    unfolding sample_step_audio by (simp add: sample_service_eq)
  have dur: "\<forall>d b. decodeAudioData ?env d = Inr b \<longrightarrow> 0 \<le> duration b"
    by (auto simp: sample_environment_def)
  have i: "interrupts ?intr"
    by (simp add: flag_def server_message_def)
  have c: "completes ?env None 1 ?intr ?sys1"
    by (simp add: onmessage_def toolCallStage_def audioStage_def messageAudio_def inlineAudioOf_def
        server_message_def Let_def)
  note reset = cursor_monotone_except_reset [OF speed dur, of ?intr None 1]
  from reset i c have zero: "nextStartTime (fst (step ?env None 1 ?intr ?sys1)) = 0"
    by blast
  with cur have "nextStartTime (fst (step ?env None 1 ?intr ?sys1)) < nextStartTime (fst ?sys1)"
    by simp
  with reset have "\<forall>s\<in>set (activeSources (fst ?sys1)).
      SourceStop (node_id s) \<in> set (drop (length (audioCalls (fst ?sys1))) (audioCalls (fst (step ?env None 1 ?intr ?sys1))))"
    by blast
  then have "SourceStop 0 \<in> set (drop (length (audioCalls (fst ?sys1))) (audioCalls (fst (step ?env None 1 ?intr ?sys1))))"
    unfolding act by simp
  then have stopped: "SourceStop 0 \<in> set (audioCalls (fst (step ?env None 1 ?intr ?sys1)))"
    by (rule in_set_dropD)
  have n: "\<not> interrupts ?set" by simp
  from cursor_monotone_except_reset [OF speed dur, of ?set None 1] n cur
  have mono: "nextStartTime (fst (step ?env None 1 ?set ?sys1)) \<ge> 1 / 2"
    by simp
  from cur i zero stopped n mono show ?thesis by (intro conjI)
qed

section \<open>Tool calls of a live session\<close>

lemma sendToolResponse_eq:
  "sendToolResponse env r ss =
     ss\<lparr>events := events ss @ (if activeSession ss \<and> \<not> sendToolResponse_throws env r then [ToolResponseSent r] else [])\<rparr>"
  by (simp add: sendToolResponse_def emit_def)

lemma handleFunctionCalls_events:
  assumes "\<forall>fc\<in>set fcs. \<exists>r. handler (fc_name fc) (fc_args fc) = Inr r"
  shows "handleFunctionCalls env handler fcs ss =
           (None, ss\<lparr>events := events ss @ concat (map (expected_events env handler (activeSession ss)) fcs)\<rparr>)"
  using assms
proof (induction fcs arbitrary: ss)
  case Nil
  show ?case by simp
next
  case (Cons fc fcs)
  from Cons.prems obtain r where r: "handler (fc_name fc) (fc_args fc) = Inr r" by auto
  from Cons.prems have rest: "\<forall>fc\<in>set fcs. \<exists>r. handler (fc_name fc) (fc_args fc) = Inr r" by simp
  let ?resp = "\<lparr>response_id = fc_id fc, response_name = fc_name fc,
                 response_result = js_or r (JString ''OK'')\<rparr>"
  let ?ss2 = "sendToolResponse env ?resp (emit (ToolCallInvoked (fc_name fc) (fc_args fc)) ss)"
  have ss2: "?ss2 = ss\<lparr>events := events ss @ expected_events env handler (activeSession ss) fc\<rparr>"
    by (simp add: sendToolResponse_eq emit_def expected_events_def r js_or_def Let_def)
  have "handleFunctionCalls env handler (fc # fcs) ss = handleFunctionCalls env handler fcs ?ss2"
    by (simp add: r Let_def)
  also have "\<dots> = (None, ?ss2\<lparr>events := events ?ss2 @ concat (map (expected_events env handler (activeSession ?ss2)) fcs)\<rparr>)"
    by (rule Cons.IH [OF rest])
  also have "\<dots> = (None, ss\<lparr>events := events ss @ concat (map (expected_events env handler (activeSession ss)) (fc # fcs))\<rparr>)"
    unfolding ss2 by simp
  finally show ?case .
qed

lemma invocations_append: "invocations (xs @ ys) = invocations xs @ invocations ys"
  by (induction xs rule: invocations.induct) auto

lemma responses_append: "responses (xs @ ys) = responses xs @ responses ys"
  by (induction xs rule: responses.induct) auto

lemma invocations_expected:
  "invocations (concat (map (expected_events env handler live) fcs)) = map (\<lambda>fc. (fc_name fc, fc_args fc)) fcs"
  by (induction fcs) (auto simp: invocations_append expected_events_def Let_def split: sum.splits)

lemma responses_expected_dead:
  "responses (concat (map (expected_events env handler False) fcs)) = []"
  by (induction fcs) (auto simp: responses_append expected_events_def Let_def split: sum.splits)

lemma responses_expected_live:
  assumes "\<forall>fc\<in>set fcs. \<exists>r. handler (fc_name fc) (fc_args fc) = Inr r"
    and "\<forall>r. \<not> sendToolResponse_throws env r"
  shows "list_all2
           (\<lambda>fc resp. response_id resp = fc_id fc \<and> response_name resp = fc_name fc \<and>
              (\<exists>r. handler (fc_name fc) (fc_args fc) = Inr r \<and>
                   response_result resp = (if truthy r then r else JString ''OK'')))
           fcs (responses (concat (map (expected_events env handler True) fcs)))"
  using assms(1)
proof (induction fcs)
  case Nil
  show ?case by simp
next
  case (Cons fc fcs)
  from Cons.prems obtain r where r: "handler (fc_name fc) (fc_args fc) = Inr r" by auto
  from Cons.prems have rest: "\<forall>fc\<in>set fcs. \<exists>r. handler (fc_name fc) (fc_args fc) = Inr r" by simp
  have "responses (expected_events env handler True fc)
          = [\<lparr>response_id = fc_id fc, response_name = fc_name fc,
               response_result = (if truthy r then r else JString ''OK'')\<rparr>]"
    using assms(2) by (simp add: expected_events_def r Let_def)
  with Cons.IH [OF rest] r show ?case
    by (simp add: responses_append)
qed

text \<open>
  Claim C6, as amended. For a tool-call event with function calls, a supplied handler
  and handler calls that all resolve: the handler is invoked for each call in order,
  each call being answered before the next is invoked. While the session variable is set
  and the send does not throw, the answer to a call is a tool response with the call's
  id and name whose result is the handler's result when that is truthy, and \<open>OK\<close> when
  it is falsy. While the session variable is null no response is sent.
\<close>

theorem tool_calls_answered_in_order:
  assumes tc: "toolCall m = Some tc" and fcs: "functionCalls tc = Some fcs"
    and resolves: "\<forall>fc\<in>set fcs. \<exists>r. handler (fc_name fc) (fc_args fc) = Inr r"
  shows "\<exists>new.
     toolCallStage env (Some handler) m ss = (None, ss\<lparr>events := events ss @ new\<rparr>) \<and>
     new = concat (map (expected_events env handler (activeSession ss)) fcs) \<and>
     invocations new = map (\<lambda>fc. (fc_name fc, fc_args fc)) fcs \<and>
     (activeSession ss \<and> (\<forall>r. \<not> sendToolResponse_throws env r) \<longrightarrow>
        list_all2
          (\<lambda>fc resp. response_id resp = fc_id fc \<and> response_name resp = fc_name fc \<and>
             (\<exists>r. handler (fc_name fc) (fc_args fc) = Inr r \<and>
                  response_result resp = (if truthy r then r else JString ''OK'')))
          fcs (responses new)) \<and>
     (\<not> activeSession ss \<longrightarrow> responses new = [])"
proof -
  let ?new = "concat (map (expected_events env handler (activeSession ss)) fcs)"
  have run: "toolCallStage env (Some handler) m ss = (None, ss\<lparr>events := events ss @ ?new\<rparr>)"
    by (simp add: toolCallStage_def tc fcs handleFunctionCalls_events [OF resolves])
  have inv: "invocations ?new = map (\<lambda>fc. (fc_name fc, fc_args fc)) fcs"
    by (rule invocations_expected)
  have live: "activeSession ss \<and> (\<forall>r. \<not> sendToolResponse_throws env r) \<longrightarrow>
        list_all2
          (\<lambda>fc resp. response_id resp = fc_id fc \<and> response_name resp = fc_name fc \<and>
             (\<exists>r. handler (fc_name fc) (fc_args fc) = Inr r \<and>
                  response_result resp = (if truthy r then r else JString ''OK'')))
          fcs (responses ?new)"
  proof
    assume a: "activeSession ss \<and> (\<forall>r. \<not> sendToolResponse_throws env r)"
    then have t: "activeSession ss = True" by simp
    from a have nt: "\<forall>r. \<not> sendToolResponse_throws env r" by simp
    show "list_all2
          (\<lambda>fc resp. response_id resp = fc_id fc \<and> response_name resp = fc_name fc \<and>
             (\<exists>r. handler (fc_name fc) (fc_args fc) = Inr r \<and>
                  response_result resp = (if truthy r then r else JString ''OK'')))
          fcs (responses ?new)"
      unfolding t by (rule responses_expected_live [OF resolves nt])
  qed
  have dead: "\<not> activeSession ss \<longrightarrow> responses ?new = []"
    by (simp add: responses_expected_dead)
  from run inv live dead show ?thesis by blast
qed

text \<open>Two calls on a live session: a confirmation string, and \<open>undefined\<close> answered as \<open>OK\<close>.\<close>

theorem tool_calls_answered_in_order_witness:
  "toolCallStage (sample_environment None None (Inl (Error ''x'')) (Inl (Error ''x''))) (Some sample_handler)
     (tool_message [sample_call ''c1'' ''set_volume'', sample_call ''c2'' ''clear_chat'']) live_session
   = (None, live_session\<lparr>events :=
        [ToolCallInvoked ''set_volume'' (JObject []),
         ToolResponseSent \<lparr>response_id = ''c1'', response_name = ''set_volume'',
                           response_result = JString ''Volume set to 50''\<rparr>,
         ToolCallInvoked ''clear_chat'' (JObject []),
         ToolResponseSent \<lparr>response_id = ''c2'', response_name = ''clear_chat'',
                           response_result = JString ''OK''\<rparr>]\<rparr>)"
proof -
  let ?env = "sample_environment None None (Inl (Error ''x'')) (Inl (Error ''x''))"
  let ?fcs = "[sample_call ''c1'' ''set_volume'', sample_call ''c2'' ''clear_chat'']"
  have tc: "toolCall (tool_message ?fcs) = Some \<lparr>functionCalls = Some ?fcs\<rparr>"
    by (simp add: tool_message_def)
  have fcs: "functionCalls \<lparr>functionCalls = Some ?fcs\<rparr> = Some ?fcs" by simp
  have resolves: "\<forall>fc\<in>set ?fcs. \<exists>r. sample_handler (fc_name fc) (fc_args fc) = Inr r"
    by (simp add: sample_handler_def sample_call_def)
  from tool_calls_answered_in_order [OF tc fcs resolves, of ?env live_session]
  have "toolCallStage ?env (Some sample_handler) (tool_message ?fcs) live_session
     = (None, live_session\<lparr>events := events live_session @
          concat (map (expected_events ?env sample_handler (activeSession live_session)) ?fcs)\<rparr>)"
    by blast
  then show ?thesis
    by (simp add: expected_events_def sample_handler_def sample_call_def live_session_def
        newSession_def sample_environment_def Let_def)
qed

text \<open>
  Against claim C6 as first stated: a handler that resolves to the explicit result
  \<open>false\<close> is answered with \<open>OK\<close>, and on a session whose variable is null the handler is
  invoked and no response is sent.
\<close>

theorem tool_response_fallback_counterexample:
  "toolCallStage (sample_environment None None (Inl (Error ''x'')) (Inl (Error ''x'')))
     (Some (constant_handler (JBool False))) (tool_message [sample_call ''c1'' ''set_volume'']) live_session
   = (None, live_session\<lparr>events :=
        [ToolCallInvoked ''set_volume'' (JObject []),
         ToolResponseSent \<lparr>response_id = ''c1'', response_name = ''set_volume'',
                           response_result = JString ''OK''\<rparr>]\<rparr>)
   \<and> constant_handler (JBool False) ''set_volume'' (JObject []) = Inr (JBool False)
   \<and> JBool False \<noteq> JUndefined
   \<and> toolCallStage (sample_environment None None (Inl (Error ''x'')) (Inl (Error ''x'')))
     (Some sample_handler) (tool_message [sample_call ''c1'' ''set_volume'']) newSession
   = (None, newSession\<lparr>events := [ToolCallInvoked ''set_volume'' (JObject [])]\<rparr>)"
  by (simp add: toolCallStage_def tool_message_def sample_call_def constant_handler_def
      sample_handler_def live_session_def newSession_def emit_def sendToolResponse_def js_or_def
      sample_environment_def Let_def)

section \<open>One-shot speech and the credential\<close>

lemma wired_step: "wired (fst sys) \<Longrightarrow> wired (fst (step env h now op sys))"
proof (cases op)
  case (OpSpeakText tx p)
  assume "wired (fst sys)"
  then show ?thesis unfolding OpSpeakText
    by (auto simp: wired_def speakText_def speakText_start_def speakText_resume_def speakBody_def
         playOnce_def ensureOutput_def stopAudio_eq Let_def
         split: sum.splits option.splits prod.splits if_splits pending_speech.splits)
next
  case (OpSpeakStart tx p)
  assume "wired (fst sys)"
  then show ?thesis unfolding OpSpeakStart
    by (simp add: wired_def speakText_start_shape)
next
  case (OpSpeakResume pending)
  assume "wired (fst sys)"
  then show ?thesis unfolding OpSpeakResume
    by (auto simp: wired_def speakText_resume_def speakBody_def playOnce_def ensureOutput_def Let_def
         split: sum.splits option.splits prod.splits if_splits pending_speech.splits)
next
  case (OpConnectLive p history)
  assume "wired (fst sys)"
  then show ?thesis unfolding OpConnectLive
    by (auto simp: wired_def connectLive_def ensureOutput_def Let_def
         split: sum.splits option.splits prod.splits if_splits connect_result.splits)
next
  case (OpMessage m)
  assume "wired (fst sys)"
  then show ?thesis unfolding OpMessage
    by (auto simp: wired_def onmessage_def audioStage_def enqueueChunk_def stopAudio_eq Let_def
         split: sum.splits option.splits prod.splits if_splits)
qed (auto simp: wired_def setAudioSettings_def sessionStop_def stopAudio_eq sourceEnded_def Let_def split: option.splits)

lemma playOnce_ok:
  assumes "wired st" and "decodeAudioData env d = Inr buf"
  shows "\<exists>g. playOnce env now d st =
     (None,
      (ensureOutput st)\<lparr>outputNode := Some g,
         nodesCreated := nodesCreated st + 1,
         audioCalls := audioCalls st @ [SourceStart (nodesCreated st) now],
         activeSources := activeSources st @
           [\<lparr>node_id = nodesCreated st, buffer = buf, playbackRate = speed (currentAudioSettings st),
             startWhen = now\<rparr>]\<rparr>)"
  using assms
  by (auto simp: playOnce_def wired_def ensureOutput_def Let_def split: option.splits)

lemma playOnce_decode_fails:
  assumes "decodeAudioData env d = Inl e"
  shows "fst (playOnce env now d st) \<noteq> None \<and>
         activeSources (snd (playOnce env now d st)) = activeSources st \<and>
         console (snd (playOnce env now d st)) = console st \<and>
         network (snd (playOnce env now d st)) = network st"
  using assms
  by (auto simp: playOnce_def ensureOutput_def Let_def split: option.splits)

lemma playOnce_frame:
  "console (snd (playOnce env now d st)) = console st \<and>
   network (snd (playOnce env now d st)) = network st"
  by (auto simp: playOnce_def ensureOutput_def Let_def split: option.splits sum.splits)

lemma speakText_start_sent:
  assumes "GoogleGenAI env (API_KEY env) = Inr ai" and "key_refused env ai = None"
  shows "speakText_start env tx p st =
           (Inr (Awaiting ai (ttsRequest tx p)),
            (stopAudio env st)\<lparr>network := network st @ [GenerateContentCall (ttsRequest tx p)]\<rparr>)"
  using assms by (simp add: speakText_start_def Let_def stopAudio_eq)

lemma speakText_start_refused:
  assumes "GoogleGenAI env (API_KEY env) = Inr ai" and "key_refused env ai = Some e"
  shows "speakText_start env tx p st = (Inr (Refused e), stopAudio env st)"
  using assms by (simp add: speakText_start_def Let_def)

lemma speakText_resume_refused:
  "speakText_resume env now (Refused e) st = st\<lparr>console := console st @ [''TTS failed:'']\<rparr>"
  by (simp add: speakText_resume_def speakBody_def)

lemma speakText_resume_backend_fails:
  assumes "generateContent env ai request = Inl e"
  shows "speakText_resume env now (Awaiting ai request) st = st\<lparr>console := console st @ [''TTS failed:'']\<rparr>"
  using assms by (simp add: speakText_resume_def speakBody_def)

lemma speakText_resume_plays:
  assumes "generateContent env ai request = Inr response"
    and "speechAudio response = Some d" and "d \<noteq> []"
  shows "speakText_resume env now (Awaiting ai request) st =
           (case playOnce env now d st of
              (Some err, st1) \<Rightarrow> st1\<lparr>console := console st1 @ [''TTS failed:'']\<rparr>
            | (None, st1) \<Rightarrow> st1)"
  using assms by (simp add: speakText_resume_def speakBody_def)

lemma speakText_resume_network: "network (speakText_resume env now pending st) = network st"
proof -
  obtain e st1 where r: "speakBody env now pending st = (e, st1)"
    by (cases "speakBody env now pending st")
  have "network (snd (speakBody env now pending st)) = network st"
    by (simp add: speakBody_def playOnce_frame split: pending_speech.splits sum.splits option.splits)
  with r show ?thesis by (cases e) (simp_all add: speakText_resume_def)
qed

text \<open>
  The boundary of the \<open>try\<close> block: a throwing constructor is the one failure that
  reaches the caller, after playback was halted.
\<close>

lemma speakText_constructor_throws:
  assumes "GoogleGenAI env (API_KEY env) = Inl e"
  shows "speakText env now tx p st = (Some e, stopAudio env st)"
  using assms by (simp add: speakText_def speakText_start_def Let_def)

text \<open>
  Claim C7, as amended. Once the SDK client is constructed (the constructor call stands
  before the \<open>try\<close> block): \<open>speakText\<close> first calls \<open>stop\<close> on every tracked source,
  leaves none tracked and resets the cursor, then awaits its one request. When the
  awaited promise settles, on whatever state the service then has, the continuation
  tracks at most one new source and leaves the cursor as it is: the utterance is started
  at once, it is not scheduled through the cursor. A call that nothing overlaps never
  rejects and leaves at most one tracked source: exactly one, started at the clock
  reading at the current speed with nothing logged, when the reply carries audio that
  decodes; none, with one console line and no error passed on, when the SDK refuses the
  key, the backend fails, or the audio does not decode.
\<close>

theorem speakText_best_effort:
  assumes ctor: "GoogleGenAI env (API_KEY env) = Inr ai"
  shows
   "(\<exists>pending. fst (speakText_start env tx p st) = Inr pending) \<and>
    activeSources (snd (speakText_start env tx p st)) = [] \<and>
    nextStartTime (snd (speakText_start env tx p st)) = 0 \<and>
    audioCalls (snd (speakText_start env tx p st))
      = audioCalls st @ map (\<lambda>s. SourceStop (node_id s)) (activeSources st) \<and>
    (\<forall>pending st'. \<exists>x.
       activeSources (speakText_resume env now pending st') = activeSources st' @ x \<and>
       length x \<le> 1 \<and>
       nextStartTime (speakText_resume env now pending st') = nextStartTime st') \<and>
    fst (speakText env now tx p st) = None \<and>
    length (activeSources (snd (speakText env now tx p st))) \<le> 1 \<and>
    nextStartTime (snd (speakText env now tx p st)) = 0 \<and>
    (\<forall>response d buf.
       wired st \<and> key_refused env ai = None \<and>
       generateContent env ai (ttsRequest tx p) = Inr response \<and>
       speechAudio response = Some d \<and> d \<noteq> [] \<and> decodeAudioData env d = Inr buf \<longrightarrow>
         activeSources (snd (speakText env now tx p st))
           = [\<lparr>node_id = nodesCreated st, buffer = buf,
               playbackRate = speed (currentAudioSettings st), startWhen = now\<rparr>] \<and>
         console (snd (speakText env now tx p st)) = console st) \<and>
    (\<forall>e. key_refused env ai = Some e \<longrightarrow>
         activeSources (snd (speakText env now tx p st)) = [] \<and>
         console (snd (speakText env now tx p st)) = console st @ [''TTS failed:''] \<and>
         network (snd (speakText env now tx p st)) = network st) \<and>
    (\<forall>e. key_refused env ai = None \<and> generateContent env ai (ttsRequest tx p) = Inl e \<longrightarrow>
         activeSources (snd (speakText env now tx p st)) = [] \<and>
         console (snd (speakText env now tx p st)) = console st @ [''TTS failed:'']) \<and>
    (\<forall>response d e.
       key_refused env ai = None \<and>
       generateContent env ai (ttsRequest tx p) = Inr response \<and>
       speechAudio response = Some d \<and> d \<noteq> [] \<and> decodeAudioData env d = Inl e \<longrightarrow>
         activeSources (snd (speakText env now tx p st)) = [] \<and>
         console (snd (speakText env now tx p st)) = console st @ [''TTS failed:''])"
proof -
  let ?st0 = "stopAudio env st"
  let ?st1 = "?st0\<lparr>network := network st @ [GenerateContentCall (ttsRequest tx p)]\<rparr>"
  let ?out = "speakText env now tx p st"
  obtain r s0 where start: "speakText_start env tx p st = (r, s0)"
    by (cases "speakText_start env tx p st")
  from ctor start obtain pending where pend: "r = Inr pending"
    by (auto simp: speakText_start_def Let_def split: option.splits)
  from start pend have begun: "\<exists>pending. fst (speakText_start env tx p st) = Inr pending"
    by simp
  from speakText_start_shape [of env tx p st] have
    none: "activeSources (snd (speakText_start env tx p st)) = []"
    and zero0: "nextStartTime (snd (speakText_start env tx p st)) = 0"
    and halted: "audioCalls (snd (speakText_start env tx p st))
      = audioCalls st @ map (\<lambda>s. SourceStop (node_id s)) (activeSources st)"
    by simp_all
  have later: "\<forall>pending st'. \<exists>x.
       activeSources (speakText_resume env now pending st') = activeSources st' @ x \<and>
       length x \<le> 1 \<and>
       nextStartTime (speakText_resume env now pending st') = nextStartTime st'"
  proof (intro allI)
    fix pending st'
    from speakText_resume_shape [of env now pending st']
    show "\<exists>x. activeSources (speakText_resume env now pending st') = activeSources st' @ x \<and>
       length x \<le> 1 \<and>
       nextStartTime (speakText_resume env now pending st') = nextStartTime st'"
      by blast
  qed
  from start pend have resolves: "fst ?out = None"
    by (simp add: speakText_def)
  from speakText_shape [of env now tx p st] have
    one: "length (activeSources (snd ?out)) \<le> 1" and zero: "nextStartTime (snd ?out) = 0"
    by auto
  have sent: "key_refused env ai = None \<Longrightarrow>
      ?out = (None, speakText_resume env now (Awaiting ai (ttsRequest tx p)) ?st1)"
    by (simp add: speakText_def speakText_start_sent [OF ctor])
  have success: "\<forall>response d buf.
       wired st \<and> key_refused env ai = None \<and>
       generateContent env ai (ttsRequest tx p) = Inr response \<and>
       speechAudio response = Some d \<and> d \<noteq> [] \<and> decodeAudioData env d = Inr buf \<longrightarrow>
         activeSources (snd ?out)
           = [\<lparr>node_id = nodesCreated st, buffer = buf,
               playbackRate = speed (currentAudioSettings st), startWhen = now\<rparr>] \<and>
         console (snd ?out) = console st"
  proof (intro allI impI)
    fix response d buf
    assume a: "wired st \<and> key_refused env ai = None \<and>
       generateContent env ai (ttsRequest tx p) = Inr response \<and>
       speechAudio response = Some d \<and> d \<noteq> [] \<and> decodeAudioData env d = Inr buf"
    then have w: "wired ?st1" by (simp add: wired_def stopAudio_eq)
    from a have gen: "generateContent env ai (ttsRequest tx p) = Inr response"
      and au: "speechAudio response = Some d" and ne: "d \<noteq> []" by simp_all
    from a playOnce_ok [OF w, of env d buf now] obtain g where
      play: "playOnce env now d ?st1 =
        (None,
         (ensureOutput ?st1)\<lparr>outputNode := Some g,
            nodesCreated := nodesCreated ?st1 + 1,
            audioCalls := audioCalls ?st1 @ [SourceStart (nodesCreated ?st1) now],
            activeSources := activeSources ?st1 @
              [\<lparr>node_id = nodesCreated ?st1, buffer = buf, playbackRate = speed (currentAudioSettings ?st1),
                startWhen = now\<rparr>]\<rparr>)"
      by blast
    have res: "speakText_resume env now (Awaiting ai (ttsRequest tx p)) ?st1 =
         (ensureOutput ?st1)\<lparr>outputNode := Some g,
            nodesCreated := nodesCreated ?st1 + 1,
            audioCalls := audioCalls ?st1 @ [SourceStart (nodesCreated ?st1) now],
            activeSources := activeSources ?st1 @
              [\<lparr>node_id = nodesCreated ?st1, buffer = buf, playbackRate = speed (currentAudioSettings ?st1),
                startWhen = now\<rparr>]\<rparr>"
      unfolding speakText_resume_plays [OF gen au ne] play by simp
    from a have "?out = (None, speakText_resume env now (Awaiting ai (ttsRequest tx p)) ?st1)"
      by (simp add: sent)
    then show "activeSources (snd ?out)
           = [\<lparr>node_id = nodesCreated st, buffer = buf,
               playbackRate = speed (currentAudioSettings st), startWhen = now\<rparr>] \<and>
         console (snd ?out) = console st"
      unfolding res by (simp add: stopAudio_eq ensureOutput_def)
  qed
  have refused: "\<forall>e. key_refused env ai = Some e \<longrightarrow>
         activeSources (snd ?out) = [] \<and>
         console (snd ?out) = console st @ [''TTS failed:''] \<and>
         network (snd ?out) = network st"
    by (simp add: speakText_def speakText_start_refused [OF ctor] speakText_resume_refused stopAudio_eq)
  have backend: "\<forall>e. key_refused env ai = None \<and> generateContent env ai (ttsRequest tx p) = Inl e \<longrightarrow>
         activeSources (snd ?out) = [] \<and> console (snd ?out) = console st @ [''TTS failed:'']"
    by (simp add: sent speakText_resume_backend_fails stopAudio_eq)
  have decode: "\<forall>response d e.
       key_refused env ai = None \<and>
       generateContent env ai (ttsRequest tx p) = Inr response \<and>
       speechAudio response = Some d \<and> d \<noteq> [] \<and> decodeAudioData env d = Inl e \<longrightarrow>
         activeSources (snd ?out) = [] \<and> console (snd ?out) = console st @ [''TTS failed:'']"
  proof (intro allI impI)
    fix response d e
    assume a: "key_refused env ai = None \<and>
       generateContent env ai (ttsRequest tx p) = Inr response \<and>
       speechAudio response = Some d \<and> d \<noteq> [] \<and> decodeAudioData env d = Inl e"
    then have gen: "generateContent env ai (ttsRequest tx p) = Inr response"
      and au: "speechAudio response = Some d" and ne: "d \<noteq> []" by simp_all
    obtain err s1 where r: "playOnce env now d ?st1 = (err, s1)"
      by (cases "playOnce env now d ?st1")
    from a playOnce_decode_fails [of env d e now ?st1] r
    have f: "err \<noteq> None" "activeSources s1 = []" "console s1 = console st"
      by (simp_all add: stopAudio_eq)
    from r f have res: "speakText_resume env now (Awaiting ai (ttsRequest tx p)) ?st1
        = s1\<lparr>console := console s1 @ [''TTS failed:'']\<rparr>"
      unfolding speakText_resume_plays [OF gen au ne] by (cases err) simp_all
    from a have "?out = (None, speakText_resume env now (Awaiting ai (ttsRequest tx p)) ?st1)"
      by (simp add: sent)
    with f show "activeSources (snd ?out) = [] \<and> console (snd ?out) = console st @ [''TTS failed:'']"
      unfolding res by simp
  qed
  from begun none zero0 halted later resolves one zero success refused backend decode
  show ?thesis by (intro conjI)
qed

lemma wired_sample_service: "wired sample_service"
  by (simp add: wired_def sample_service_eq)

text \<open>
  An empty key refused by the SDK: logged and swallowed, nothing sent. A reply with
  audio: one source, started at the clock reading 3 at double speed.
\<close>

theorem speakText_best_effort_witness:
  "GoogleGenAI (sample_environment (Some []) (Some []) (Inl (Error ''API key not valid'')) (Inr \<lparr>duration = 1\<rparr>))
     (API_KEY (sample_environment (Some []) (Some []) (Inl (Error ''API key not valid'')) (Inr \<lparr>duration = 1\<rparr>)))
     = Inr (Some []) \<and>
   fst (speakText (sample_environment (Some []) (Some []) (Inl (Error ''API key not valid'')) (Inr \<lparr>duration = 1\<rparr>))
          3 ''hello'' Puck sample_service) = None \<and>
   activeSources (snd (speakText (sample_environment (Some []) (Some []) (Inl (Error ''API key not valid'')) (Inr \<lparr>duration = 1\<rparr>))
          3 ''hello'' Puck sample_service)) = [] \<and>
   console (snd (speakText (sample_environment (Some []) (Some []) (Inl (Error ''API key not valid'')) (Inr \<lparr>duration = 1\<rparr>))
          3 ''hello'' Puck sample_service)) = [''TTS failed:''] \<and>
   fst (speakText (sample_environment (Some ''k'') (Some ''k'') (Inr (speech_reply ''AAAA'')) (Inr \<lparr>duration = 1\<rparr>))
          3 ''hello'' Puck sample_service) = None \<and>
   activeSources (snd (speakText (sample_environment (Some ''k'') (Some ''k'') (Inr (speech_reply ''AAAA'')) (Inr \<lparr>duration = 1\<rparr>))
          3 ''hello'' Puck sample_service))
     = [\<lparr>node_id = 0, buffer = \<lparr>duration = 1\<rparr>, playbackRate = 2, startWhen = 3\<rparr>]"
proof -
  let ?bad = "sample_environment (Some []) (Some []) (Inl (Error ''API key not valid'')) (Inr \<lparr>duration = 1\<rparr>)"
  let ?ok = "sample_environment (Some ''k'') (Some ''k'') (Inr (speech_reply ''AAAA'')) (Inr \<lparr>duration = 1\<rparr>)"
  have ctor_bad: "GoogleGenAI ?bad (API_KEY ?bad) = Inr (Some [])"
    by (simp add: sample_environment_def)
  have ctor_ok: "GoogleGenAI ?ok (API_KEY ?ok) = Inr (Some ''k'')"
    by (simp add: sample_environment_def)
  note bad = speakText_best_effort [OF ctor_bad, of "''hello''" Puck sample_service 3]
  note ok = speakText_best_effort [OF ctor_ok, of "''hello''" Puck sample_service 3]
  have refused: "key_refused ?bad (Some []) = Some (Error ''API key must be set'')"
    by (simp add: sample_environment_def truthy_str_def)
  have served: "wired sample_service \<and> key_refused ?ok (Some ''k'') = None \<and>
      generateContent ?ok (Some ''k'') (ttsRequest ''hello'' Puck) = Inr (speech_reply ''AAAA'') \<and>
      speechAudio (speech_reply ''AAAA'') = Some ''AAAA'' \<and> ''AAAA'' \<noteq> [] \<and>
      decodeAudioData ?ok ''AAAA'' = Inr \<lparr>duration = 1\<rparr>"
    by (simp add: wired_sample_service sample_environment_def speechAudio_def speech_reply_def
        first_of_def inlineAudioOf_def audio_part_def truthy_str_def)
  from bad have b1: "fst (speakText ?bad 3 ''hello'' Puck sample_service) = None" by blast
  from bad refused have b2: "activeSources (snd (speakText ?bad 3 ''hello'' Puck sample_service)) = [] \<and>
         console (snd (speakText ?bad 3 ''hello'' Puck sample_service)) = console sample_service @ [''TTS failed:'']"
    by blast
  from ok have o1: "fst (speakText ?ok 3 ''hello'' Puck sample_service) = None" by blast
  from ok served have o2: "activeSources (snd (speakText ?ok 3 ''hello'' Puck sample_service))
           = [\<lparr>node_id = nodesCreated sample_service, buffer = \<lparr>duration = 1\<rparr>,
               playbackRate = speed (currentAudioSettings sample_service), startWhen = 3\<rparr>]"
    by blast
  from ctor_bad b1 b2 o1 o2 show ?thesis
    by (simp add: sample_service_eq)
qed

text \<open>
  Against claim C7 as first stated. Two calls of \<open>speakText\<close> that overlap, the second
  begun while the first awaits its reply: both replies arrive, and two sources are
  tracked, started at 3 and at 3.2 and each lasting half a second. And a call that
  succeeds does not schedule through the cursor: the cursor stays 0, where scheduling the
  same chunk as inbound audio on the same halted service would have moved it to 3.5.
\<close>

theorem speakText_overlap_counterexample:
  "fst (speakText_start (sample_environment (Some ''k'') (Some ''k'') (Inr (speech_reply ''AAAA'')) (Inr \<lparr>duration = 1\<rparr>))
          ''one'' Puck sample_service)
     = Inr (Awaiting (Some ''k'') (ttsRequest ''one'' Puck)) \<and>
   fst (speakText_start (sample_environment (Some ''k'') (Some ''k'') (Inr (speech_reply ''AAAA'')) (Inr \<lparr>duration = 1\<rparr>))
          ''two'' Puck
          (snd (speakText_start (sample_environment (Some ''k'') (Some ''k'') (Inr (speech_reply ''AAAA'')) (Inr \<lparr>duration = 1\<rparr>))
                  ''one'' Puck sample_service)))
     = Inr (Awaiting (Some ''k'') (ttsRequest ''two'' Puck)) \<and>
   map startWhen (activeSources
     (speakText_resume (sample_environment (Some ''k'') (Some ''k'') (Inr (speech_reply ''AAAA'')) (Inr \<lparr>duration = 1\<rparr>))
        (16 / 5) (Awaiting (Some ''k'') (ttsRequest ''two'' Puck))
        (speakText_resume (sample_environment (Some ''k'') (Some ''k'') (Inr (speech_reply ''AAAA'')) (Inr \<lparr>duration = 1\<rparr>))
           3 (Awaiting (Some ''k'') (ttsRequest ''one'' Puck))
           (snd (speakText_start (sample_environment (Some ''k'') (Some ''k'') (Inr (speech_reply ''AAAA'')) (Inr \<lparr>duration = 1\<rparr>))
                   ''two'' Puck
                   (snd (speakText_start (sample_environment (Some ''k'') (Some ''k'') (Inr (speech_reply ''AAAA'')) (Inr \<lparr>duration = 1\<rparr>))
                           ''one'' Puck sample_service)))))))
     = [3, 16 / 5] \<and>
   nextStartTime (snd (speakText (sample_environment (Some ''k'') (Some ''k'') (Inr (speech_reply ''AAAA'')) (Inr \<lparr>duration = 1\<rparr>))
                         3 ''one'' Puck sample_service)) = 0 \<and>
   nextStartTime (snd (enqueueChunk (sample_environment (Some ''k'') (Some ''k'') (Inr (speech_reply ''AAAA'')) (Inr \<lparr>duration = 1\<rparr>))
                         3 ''AAAA''
                         (stopAudio (sample_environment (Some ''k'') (Some ''k'') (Inr (speech_reply ''AAAA'')) (Inr \<lparr>duration = 1\<rparr>))
                            sample_service))) = 7 / 2"
  by (simp add: speakText_def speakText_start_def speakText_resume_def speakBody_def playOnce_def
      ensureOutput_def enqueueChunk_def stopAudio_eq sample_environment_def sample_service_eq
      speech_reply_def speechAudio_def first_of_def inlineAudioOf_def audio_part_def
      truthy_str_def Let_def)

lemma speakText_resolves:
  assumes "GoogleGenAI env (API_KEY env) = Inr ai"
  shows "fst (speakText env now tx p st) = None"
  using assms
  by (simp add: speakText_def speakText_start_def Let_def split: option.splits)

lemma speakText_refused:
  assumes "GoogleGenAI env (API_KEY env) = Inr ai" and "key_refused env ai = Some e"
  shows "speakText env now tx p st
           = (None, (stopAudio env st)\<lparr>console := console st @ [''TTS failed:'']\<rparr>)"
  using assms
  by (simp add: speakText_def speakText_start_refused speakText_resume_refused stopAudio_eq)

text \<open>
  Claim C5, as amended. \<open>sendChatMessage\<close> resolves the credential from \<open>API_KEY\<close>, then
  \<open>GEMINI_API_KEY\<close>: the first that is non-empty is the key the client is made with, and
  when neither is set the call throws the configuration error before any request.
  \<open>connectLive\<close> and \<open>speakText\<close> read \<open>API_KEY\<close> alone, which is the resolved credential
  whenever both names hold one value, as the build defines them. With it absent,
  \<open>connectLive\<close> reports \<open>API_KEY_MISSING\<close> through the error callback and returns null
  with no network call. \<open>speakText\<close> makes no check and raises no configuration error:
  once the client is constructed it never rejects, and a key the SDK refuses is logged
  and swallowed with nothing sent.
\<close>

theorem credential_by_path:
  "str_or (API_KEY env) (GEMINI_API_KEY env)
     = (if truthy_str (API_KEY env) then API_KEY env else GEMINI_API_KEY env) \<and>
   (\<not> truthy_str (str_or (API_KEY env) (GEMINI_API_KEY env)) \<longrightarrow>
      sendChatMessage env tx model history persona
        = (Inl (Error ''GEMINI_API_KEY is not configured''), [])) \<and>
   (truthy_str (str_or (API_KEY env) (GEMINI_API_KEY env)) \<longrightarrow>
      (\<forall>e. GoogleGenAI env (str_or (API_KEY env) (GEMINI_API_KEY env)) = Inl e \<longrightarrow>
           sendChatMessage env tx model history persona = (Inl e, [])) \<and>
      (\<forall>ai. GoogleGenAI env (str_or (API_KEY env) (GEMINI_API_KEY env)) = Inr ai \<longrightarrow>
           sendChatMessage env tx model history persona
             = (case generateContent env ai (chatRequest tx model history persona) of
                  Inl e \<Rightarrow> (Inl e, [chatRequest tx model history persona])
                | Inr response \<Rightarrow> (Inr (chatResult response), [chatRequest tx model history persona])))) \<and>
   (GEMINI_API_KEY env = API_KEY env \<longrightarrow>
      str_or (API_KEY env) (GEMINI_API_KEY env) = API_KEY env) \<and>
   (\<not> truthy_str (API_KEY env) \<longrightarrow>
      connectLive env now p history st
        = (ReturnedNull [OnError (Error ''API_KEY_MISSING'')],
           st\<lparr>console := console st @ [''GEMINI_API_KEY is not configured'']\<rparr>)) \<and>
   (\<forall>ai. GoogleGenAI env (API_KEY env) = Inr ai \<longrightarrow>
      fst (speakText env now tx p st) = None \<and>
      (\<forall>e. key_refused env ai = Some e \<longrightarrow>
           network (snd (speakText env now tx p st)) = network st \<and>
           console (snd (speakText env now tx p st)) = console st @ [''TTS failed:'']))"
proof -
  let ?key = "str_or (API_KEY env) (GEMINI_API_KEY env)"
  have first: "?key = (if truthy_str (API_KEY env) then API_KEY env else GEMINI_API_KEY env)"
    by (simp add: str_or_def)
  have absent: "\<not> truthy_str ?key \<longrightarrow>
      sendChatMessage env tx model history persona
        = (Inl (Error ''GEMINI_API_KEY is not configured''), [])"
    by (simp add: sendChatMessage_def Let_def)
  have present: "truthy_str ?key \<longrightarrow>
      (\<forall>e. GoogleGenAI env ?key = Inl e \<longrightarrow>
           sendChatMessage env tx model history persona = (Inl e, [])) \<and>
      (\<forall>ai. GoogleGenAI env ?key = Inr ai \<longrightarrow>
           sendChatMessage env tx model history persona
             = (case generateContent env ai (chatRequest tx model history persona) of
                  Inl e \<Rightarrow> (Inl e, [chatRequest tx model history persona])
                | Inr response \<Rightarrow> (Inr (chatResult response), [chatRequest tx model history persona])))"
    by (simp add: sendChatMessage_def Let_def)
  have build: "GEMINI_API_KEY env = API_KEY env \<longrightarrow> ?key = API_KEY env"
    by (simp add: str_or_def)
  have live: "\<not> truthy_str (API_KEY env) \<longrightarrow>
      connectLive env now p history st
        = (ReturnedNull [OnError (Error ''API_KEY_MISSING'')],
           st\<lparr>console := console st @ [''GEMINI_API_KEY is not configured'']\<rparr>)"
    by (simp add: connectLive_def Let_def)
  have speech: "\<forall>ai. GoogleGenAI env (API_KEY env) = Inr ai \<longrightarrow>
      fst (speakText env now tx p st) = None \<and>
      (\<forall>e. key_refused env ai = Some e \<longrightarrow>
           network (snd (speakText env now tx p st)) = network st \<and>
           console (snd (speakText env now tx p st)) = console st @ [''TTS failed:''])"
    by (simp add: speakText_resolves speakText_refused stopAudio_eq)
  from first absent present build live speech show ?thesis by (intro conjI)
qed

text \<open>
  No key configured, both names empty: the chat call throws, the live call reports the
  missing key, one-shot speech resolves with one console line; nothing is sent by any
  of them.
\<close>

theorem credential_by_path_witness:
  "\<not> truthy_str (str_or (API_KEY (sample_environment (Some []) (Some []) (Inl (Error ''x'')) (Inl (Error ''x''))))
                         (GEMINI_API_KEY (sample_environment (Some []) (Some []) (Inl (Error ''x'')) (Inl (Error ''x''))))) \<and>
   GEMINI_API_KEY (sample_environment (Some []) (Some []) (Inl (Error ''x'')) (Inl (Error ''x'')))
     = API_KEY (sample_environment (Some []) (Some []) (Inl (Error ''x'')) (Inl (Error ''x''))) \<and>
   sendChatMessage (sample_environment (Some []) (Some []) (Inl (Error ''x'')) (Inl (Error ''x'')))
       ''hi'' Gemini3Flash [] Zephyr
     = (Inl (Error ''GEMINI_API_KEY is not configured''), []) \<and>
   connectLive (sample_environment (Some []) (Some []) (Inl (Error ''x'')) (Inl (Error ''x'')))
       0 Zephyr [] gemini
     = (ReturnedNull [OnError (Error ''API_KEY_MISSING'')],
        gemini\<lparr>console := [''GEMINI_API_KEY is not configured'']\<rparr>) \<and>
   fst (speakText (sample_environment (Some []) (Some []) (Inl (Error ''x'')) (Inl (Error ''x'')))
          0 ''hi'' Zephyr gemini) = None \<and>
   network (snd (speakText (sample_environment (Some []) (Some []) (Inl (Error ''x'')) (Inl (Error ''x'')))
          0 ''hi'' Zephyr gemini)) = [] \<and>
   console (snd (speakText (sample_environment (Some []) (Some []) (Inl (Error ''x'')) (Inl (Error ''x'')))
          0 ''hi'' Zephyr gemini)) = [''TTS failed:'']"
proof -
  let ?env = "sample_environment (Some []) (Some []) (Inl (Error ''x'')) (Inl (Error ''x''))"
  note inst = credential_by_path [where env = ?env and tx = "''hi''" and model = Gemini3Flash
      and history = "[]" and persona = Zephyr and now = 0 and p = Zephyr and st = gemini]
  have nokey: "\<not> truthy_str (str_or (API_KEY ?env) (GEMINI_API_KEY ?env))"
    by (simp add: sample_environment_def truthy_str_def str_or_def)
  have same: "GEMINI_API_KEY ?env = API_KEY ?env"
    by (simp add: sample_environment_def)
  have nolive: "\<not> truthy_str (API_KEY ?env)"
    by (simp add: sample_environment_def truthy_str_def)
  have ctor: "GoogleGenAI ?env (API_KEY ?env) = Inr (Some [])"
    by (simp add: sample_environment_def)
  have refused: "key_refused ?env (Some []) = Some (Error ''API key must be set'')"
    by (simp add: sample_environment_def truthy_str_def)
  from inst nokey have chat: "sendChatMessage ?env ''hi'' Gemini3Flash [] Zephyr
     = (Inl (Error ''GEMINI_API_KEY is not configured''), [])"
    by blast
  from inst nolive have conn: "connectLive ?env 0 Zephyr [] gemini
     = (ReturnedNull [OnError (Error ''API_KEY_MISSING'')],
        gemini\<lparr>console := console gemini @ [''GEMINI_API_KEY is not configured'']\<rparr>)"
    by blast
  from inst ctor have speech: "fst (speakText ?env 0 ''hi'' Zephyr gemini) = None \<and>
      (\<forall>e. key_refused ?env (Some []) = Some e \<longrightarrow>
           network (snd (speakText ?env 0 ''hi'' Zephyr gemini)) = network gemini \<and>
           console (snd (speakText ?env 0 ''hi'' Zephyr gemini)) = console gemini @ [''TTS failed:''])"
    by blast
  with refused have sp: "fst (speakText ?env 0 ''hi'' Zephyr gemini) = None"
    "network (snd (speakText ?env 0 ''hi'' Zephyr gemini)) = network gemini"
    "console (snd (speakText ?env 0 ''hi'' Zephyr gemini)) = console gemini @ [''TTS failed:'']"
    by blast+
  from nokey same chat conn sp show ?thesis
    by (simp add: gemini_def)
qed

text \<open>
  Against claim C5 as first stated. With no key configured, \<open>speakText\<close> does not fail
  with a configuration error: it resolves, and the refusal is one console line. The chat
  call in the same configuration throws the configuration error.
\<close>

theorem speakText_no_configuration_error_counterexample:
  "\<not> truthy_str (str_or (API_KEY (sample_environment (Some []) (Some []) (Inl (Error ''x'')) (Inl (Error ''x''))))
                         (GEMINI_API_KEY (sample_environment (Some []) (Some []) (Inl (Error ''x'')) (Inl (Error ''x''))))) \<and>
   speakText (sample_environment (Some []) (Some []) (Inl (Error ''x'')) (Inl (Error ''x'')))
       0 ''hi'' Zephyr gemini
     = (None, gemini\<lparr>console := [''TTS failed:'']\<rparr>) \<and>
   sendChatMessage (sample_environment (Some []) (Some []) (Inl (Error ''x'')) (Inl (Error ''x'')))
       ''hi'' Gemini3Flash [] Zephyr
     = (Inl (Error ''GEMINI_API_KEY is not configured''), [])"
  by (simp add: speakText_def speakText_start_def speakText_resume_def speakBody_def stopAudio_eq
      sendChatMessage_def sample_environment_def truthy_str_def str_or_def gemini_def Let_def)

section \<open>The voice-mode instruction builder\<close>

lemma recentHistory_drop: "recentHistory history = drop (length history - 10) history"
proof -
  have "nat (max (int (length history) + (- 10)) 0) = length history - 10"
    by arith
  then show ?thesis
    by (simp add: recentHistory_def js_slice_def Let_def)
qed

lemma js_join_lines: "js_join sep (x # xs) = x @ concat (map (\<lambda>y. sep @ y) xs)"
  by (induction xs arbitrary: x) auto


lemma template_no_marker:
  "\<not> sublist ''--- Previous Conversation Context ---'' (voiceTemplate persona)"
proof (cases persona)
  case Zephyr
  show ?thesis unfolding Zephyr by code_simp
next
  case Puck
  show ?thesis unfolding Puck by code_simp
next
  case Kore
  show ?thesis unfolding Kore by code_simp
next
  case Charon
  show ?thesis unfolding Charon by code_simp
next
  case Fenrir
  show ?thesis unfolding Fenrir by code_simp
qed

text \<open>
  Claim C8. The transcript of the instruction is built from exactly the last
  \<open>min n 10\<close> of the \<open>n\<close> messages of the history, in their order, one line each. The
  builder is total. With a history it returns the template followed by the transcript
  section; with the empty history it returns the template alone, in which the heading of
  the transcript section does not occur.
\<close>

theorem buildVoiceSystemInstruction_last_ten:
  "recentHistory history = drop (length history - 10) history \<and>
   length (recentHistory history) = min (length history) 10 \<and>
   (\<forall>i<min (length history) 10.
      recentHistory history ! i = history ! (length history - min (length history) 10 + i)) \<and>
   historyContext history = js_join LF (map formatMessage (drop (length history - 10) history)) \<and>
   buildVoiceSystemInstruction persona history =
     (if history = [] then voiceTemplate persona
      else voiceTemplate persona @ LF @ LF @ ''--- Previous Conversation Context ---'' @ LF @
           historyContext history @ LF @ ''--- End of Context ---'' @ LF @
           ''Continue the conversation naturally, referencing previous topics when relevant.'') \<and>
   buildVoiceSystemInstruction persona [] = voiceTemplate persona \<and>
   \<not> sublist ''--- Previous Conversation Context ---'' (buildVoiceSystemInstruction persona [])"
proof -
  have a: "recentHistory history = drop (length history - 10) history"
    by (rule recentHistory_drop)
  have b: "length (recentHistory history) = min (length history) 10"
    unfolding a by auto
  have c: "\<forall>i<min (length history) 10.
      recentHistory history ! i = history ! (length history - min (length history) 10 + i)"
    unfolding a by (auto simp: min_def)
  have d: "historyContext history = js_join LF (map formatMessage (drop (length history - 10) history))"
    by (simp add: historyContext_def a)
  have e: "buildVoiceSystemInstruction persona history =
     (if history = [] then voiceTemplate persona
      else voiceTemplate persona @ LF @ LF @ ''--- Previous Conversation Context ---'' @ LF @
           historyContext history @ LF @ ''--- End of Context ---'' @ LF @
           ''Continue the conversation naturally, referencing previous topics when relevant.'')"
    by (simp add: buildVoiceSystemInstruction_def Let_def)
  have f: "buildVoiceSystemInstruction persona [] = voiceTemplate persona"
    by (simp add: buildVoiceSystemInstruction_def Let_def)
  have g: "\<not> sublist ''--- Previous Conversation Context ---'' (buildVoiceSystemInstruction persona [])"
    unfolding f by (rule template_no_marker)
  from a b c d e f g show ?thesis by (intro conjI)
qed


text \<open>Fifteen messages: the transcript holds the sixth to the fifteenth.\<close>

theorem buildVoiceSystemInstruction_last_ten_witness:
  "(0::nat) < min (length (map (sample_message USER)
       [''m01'', ''m02'', ''m03'', ''m04'', ''m05'', ''m06'', ''m07'', ''m08'',
        ''m09'', ''m10'', ''m11'', ''m12'', ''m13'', ''m14'', ''m15''])) 10
   \<and> recentHistory (map (sample_message USER)
       [''m01'', ''m02'', ''m03'', ''m04'', ''m05'', ''m06'', ''m07'', ''m08'',
        ''m09'', ''m10'', ''m11'', ''m12'', ''m13'', ''m14'', ''m15'']) ! 0
     = sample_message USER ''m06''
   \<and> recentHistory (map (sample_message USER)
       [''m01'', ''m02'', ''m03'', ''m04'', ''m05'', ''m06'', ''m07'', ''m08'',
        ''m09'', ''m10'', ''m11'', ''m12'', ''m13'', ''m14'', ''m15''])
     = map (sample_message USER)
       [''m06'', ''m07'', ''m08'', ''m09'', ''m10'', ''m11'', ''m12'', ''m13'', ''m14'', ''m15'']
   \<and> historyContext (map (sample_message USER)
       [''m01'', ''m02'', ''m03'', ''m04'', ''m05'', ''m06'', ''m07'', ''m08'',
        ''m09'', ''m10'', ''m11'', ''m12'', ''m13'', ''m14'', ''m15''])
     = ''User: m06'' @ LF @ ''User: m07'' @ LF @ ''User: m08'' @ LF @ ''User: m09'' @ LF @
       ''User: m10'' @ LF @ ''User: m11'' @ LF @ ''User: m12'' @ LF @ ''User: m13'' @ LF @
       ''User: m14'' @ LF @ ''User: m15''"
proof -
  let ?h = "map (sample_message USER)
       [''m01'', ''m02'', ''m03'', ''m04'', ''m05'', ''m06'', ''m07'', ''m08'',
        ''m09'', ''m10'', ''m11'', ''m12'', ''m13'', ''m14'', ''m15'']"
  note inst = buildVoiceSystemInstruction_last_ten [of ?h Zephyr]
  have len: "length ?h = 15" by simp
  have pos: "(0::nat) < min (length ?h) 10" by simp
  from inst pos have "recentHistory ?h ! 0 = ?h ! (length ?h - min (length ?h) 10 + 0)"
    by blast
  then have first: "recentHistory ?h ! 0 = sample_message USER ''m06''"
    by simp
  from inst have "recentHistory ?h = drop (length ?h - 10) ?h" by blast
  then have rec: "recentHistory ?h = map (sample_message USER)
       [''m06'', ''m07'', ''m08'', ''m09'', ''m10'', ''m11'', ''m12'', ''m13'', ''m14'', ''m15'']"
    by simp
  have ctx: "historyContext ?h
     = ''User: m06'' @ LF @ ''User: m07'' @ LF @ ''User: m08'' @ LF @ ''User: m09'' @ LF @
       ''User: m10'' @ LF @ ''User: m11'' @ LF @ ''User: m12'' @ LF @ ''User: m13'' @ LF @
       ''User: m14'' @ LF @ ''User: m15''"
    unfolding historyContext_def rec
    by (simp add: formatMessage_def sample_message_def)
  from pos first rec ctx show ?thesis by (intro conjI)
qed

end
